theory Spec2Isabelle
  imports Complex_Main "HOL-Library.Char_ord" "HOL-Library.List_Lexorder" "HOL-Library.Multiset"
begin

section \<open>Python values, errors and indexing\<close>

text \<open>
  The data preparation code of \<^verbatim>\<open>src/code/data_utils.py\<close> is Python 2.  Exceptions are
  values of \<open>error\<close>; a function that can raise returns \<open>error + 'a\<close> with \<open>Inl\<close> for the
  exception.  Python's sets are heterogeneous: the label sets of the partitioner hold
  strings, and one membership test asks for an integer, so set elements are \<open>pyval\<close>.
\<close>

datatype error = IndexError | DatasetNotFound string | UnboundLocalError | IOError | UnpicklingError

datatype pyval = PyInt int | PyStr string

text \<open>\<^verbatim>\<open>xs[i]\<close> on a Python list: a negative index counts from the end, an index out of
  range raises IndexError.\<close>

definition py_index :: "'a list \<Rightarrow> int \<Rightarrow> error + 'a" where
  "py_index xs i =
     (if 0 \<le> i \<and> i < int (length xs) then Inr (xs ! nat i)
      else if i < 0 \<and> - int (length xs) \<le> i then Inr (xs ! nat (int (length xs) + i))
      else Inl IndexError)"

text \<open>\<^verbatim>\<open>set(s)\<close> for a string \<open>s\<close>: the set of its one-character strings.\<close>

definition py_set_of_str :: "string \<Rightarrow> pyval set" where
  "py_set_of_str s = (\<lambda>c. PyStr [c]) ` set s"

text \<open>\<^verbatim>\<open>set(names)\<close> for a list of strings.\<close>

definition py_set_of_strs :: "string list \<Rightarrow> pyval set" where
  "py_set_of_strs names = PyStr ` set names"

section \<open>The partitioner: \<^verbatim>\<open>load_cifar_pyramid\<close>\<close>

text \<open>
  The label matrix \<open>y\<close> of CIFAR-100 has one row \<open>[fine_id, coarse_id]\<close> per sample, here a
  pair.  The taxonomy is read by \<^verbatim>\<open>coarse_to_fine_map.iteritems()\<close>; the model takes the
  sequence of items in the order the dictionary yields them.
\<close>

type_synonym label_row = "int \<times> int"
type_synonym taxonomy_items = "(string \<times> string list) list"

text \<open>Lines 211-218: the three label sets, one bucket after the other.\<close>

fun label_sets_loop ::
  "taxonomy_items \<Rightarrow> pyval set \<times> pyval set \<times> pyval set
     \<Rightarrow> error + (pyval set \<times> pyval set \<times> pyval set)" where
  "label_sets_loop [] acc = Inr acc"
| "label_sets_loop ((coarse_label, fine_labels) # rest)
       (fine_labels_joint, fine_labels_gate, fine_labels_only_test) =
     (case py_index fine_labels 4 of
        Inl e \<Rightarrow> Inl e
      | Inr fifth \<Rightarrow>
          label_sets_loop rest
            (fine_labels_joint \<union> py_set_of_strs (take 2 fine_labels),
             fine_labels_gate \<union> py_set_of_strs (take 4 fine_labels),
             fine_labels_only_test \<union> py_set_of_str fifth))"

definition label_sets ::
  "taxonomy_items \<Rightarrow> error + (pyval set \<times> pyval set \<times> pyval set)" where
  "label_sets items = label_sets_loop items ({}, {}, {})"

record 'img train_acc =
  acc_X_joint :: "'img list"
  acc_y_joint :: "label_row list"
  acc_X_gate :: "'img list"
  acc_y_gate :: "label_row list"
  acc_flags :: "int list"

text \<open>\<^verbatim>\<open>y[i, 0]\<close> and \<^verbatim>\<open>y[i]\<close> for a row index produced by \<^verbatim>\<open>xrange\<close>: never negative,
  IndexError beyond the last row.\<close>

definition np_row :: "'a list \<Rightarrow> nat \<Rightarrow> error + 'a" where
  "np_row y i = (if i < length y then Inr (y ! i) else Inl IndexError)"

text \<open>Lines 227-237: the body of the loop over the training samples.\<close>

definition train_step ::
  "'img list \<Rightarrow> label_row list \<Rightarrow> string list \<Rightarrow> pyval set \<Rightarrow> pyval set
     \<Rightarrow> nat \<Rightarrow> 'img train_acc \<Rightarrow> error + 'img train_acc" where
  "train_step X_train y_train fine_label_names fine_labels_joint fine_labels_gate i st =
     (case np_row y_train i of
        Inl e \<Rightarrow> Inl e
      | Inr row \<Rightarrow>
         (case py_index fine_label_names (fst row) of
            Inl e \<Rightarrow> Inl e
          | Inr fine_label \<Rightarrow>
             (let st1 = (if PyStr fine_label \<in> fine_labels_joint
                         then st\<lparr>acc_X_joint := acc_X_joint st @ [X_train ! i],
                                 acc_y_joint := acc_y_joint st @ [row]\<rparr>
                         else st);
                  st2 = (if PyStr fine_label \<in> fine_labels_gate
                         then st1\<lparr>acc_X_gate := acc_X_gate st1 @ [X_train ! i],
                                  acc_y_gate := acc_y_gate st1 @ [row],
                                  acc_flags := acc_flags st1 @
                                    [if PyStr fine_label \<in> fine_labels_joint then 0 else 1]\<rparr>
                         else st1)
              in Inr st2)))"

fun train_loop ::
  "'img list \<Rightarrow> label_row list \<Rightarrow> string list \<Rightarrow> pyval set \<Rightarrow> pyval set
     \<Rightarrow> nat list \<Rightarrow> 'img train_acc \<Rightarrow> error + 'img train_acc" where
  "train_loop X_train y_train names J G [] st = Inr st"
| "train_loop X_train y_train names J G (i # rest) st =
     (case train_step X_train y_train names J G i st of
        Inl e \<Rightarrow> Inl e
      | Inr st' \<Rightarrow> train_loop X_train y_train names J G rest st')"

text \<open>Lines 248-253: the loop over the test samples.  \<^verbatim>\<open>fine_label = y_test[i,0]\<close> is the
  integer id of the label, and it is this integer that is looked up in the set.\<close>

fun test_loop :: "label_row list \<Rightarrow> pyval set \<Rightarrow> nat list \<Rightarrow> int list \<Rightarrow> error + int list" where
  "test_loop y_test J [] fine_or_coarse = Inr fine_or_coarse"
| "test_loop y_test J (i # rest) fine_or_coarse =
     (case np_row y_test i of
        Inl e \<Rightarrow> Inl e
      | Inr row \<Rightarrow>
          test_loop y_test J rest
            (fine_or_coarse @ [if PyInt (fst row) \<in> J then 0 else 1]))"

record 'img pyramid =
  X_train_joint :: "'img list"
  y_train_joint :: "label_row list"
  X_train_gate :: "'img list"
  y_train_gate :: "label_row list"
  fine_or_coarse_train_gate :: "int list"
  X_test_all :: "'img list"
  y_test_all :: "label_row list"
  fine_or_coarse_test :: "int list"

text \<open>\<^verbatim>\<open>load_cifar_pyramid\<close>, from the point where the raw arrays, the taxonomy and the
  table of fine label names have been read from disk.\<close>

definition load_cifar_pyramid ::
  "'img list \<Rightarrow> label_row list \<Rightarrow> 'img list \<Rightarrow> label_row list
     \<Rightarrow> taxonomy_items \<Rightarrow> string list \<Rightarrow> error + 'img pyramid" where
  "load_cifar_pyramid X_train y_train X_test y_test coarse_to_fine_map fine_label_names =
     (case label_sets coarse_to_fine_map of
        Inl e \<Rightarrow> Inl e
      | Inr (fine_labels_joint, fine_labels_gate, fine_labels_only_test) \<Rightarrow>
         (case train_loop X_train y_train fine_label_names fine_labels_joint fine_labels_gate
                 [0..<length X_train]
                 \<lparr>acc_X_joint = [], acc_y_joint = [], acc_X_gate = [], acc_y_gate = [],
                  acc_flags = []\<rparr> of
            Inl e \<Rightarrow> Inl e
          | Inr st \<Rightarrow>
             (case test_loop y_test fine_labels_joint [0..<length X_test] [] of
                Inl e \<Rightarrow> Inl e
              | Inr flags \<Rightarrow>
                  Inr \<lparr>X_train_joint = acc_X_joint st, y_train_joint = acc_y_joint st,
                       X_train_gate = acc_X_gate st, y_train_gate = acc_y_gate st,
                       fine_or_coarse_train_gate = acc_flags st,
                       X_test_all = X_test, y_test_all = y_test,
                       fine_or_coarse_test = flags\<rparr>)))"

subsection \<open>The sets the specification names\<close>

text \<open>The global joint set: the first two names of every bucket; the global gate set: the
  first four; the set of fifth names.\<close>

definition joint_set :: "taxonomy_items \<Rightarrow> pyval set" where
  "joint_set items = (\<Union>(c, fl) \<in> set items. PyStr ` set (take 2 fl))"

definition gate_set :: "taxonomy_items \<Rightarrow> pyval set" where
  "gate_set items = (\<Union>(c, fl) \<in> set items. PyStr ` set (take 4 fl))"

definition fifth_names :: "taxonomy_items \<Rightarrow> pyval set" where
  "fifth_names items = (\<lambda>(c, fl). PyStr (fl ! 4)) ` set items"

text \<open>The two-bucket scenario of the specification.\<close>

definition scenario_taxonomy :: taxonomy_items where
  "scenario_taxonomy =
     [(''c0'', [''f0'', ''f1'', ''f2'', ''f3'', ''f4'']),
      (''c1'', [''f5'', ''f6'', ''f7'', ''f8'', ''f9''])]"

definition scenario_names :: "string list" where
  "scenario_names =
     [''f0'', ''f1'', ''f2'', ''f3'', ''f4'', ''f5'', ''f6'', ''f7'', ''f8'', ''f9'']"


text \<open>The fine-label name of a row, looked up in the name table as line 227 does, is a
  member of the set \<open>S\<close>.\<close>

definition name_in :: "string list \<Rightarrow> pyval set \<Rightarrow> label_row \<Rightarrow> bool" where
  "name_in fine_label_names S row =
     (case py_index fine_label_names (fst row) of Inl e \<Rightarrow> False | Inr n \<Rightarrow> PyStr n \<in> S)"

text \<open>The ids that \<^verbatim>\<open>fine_label_names[id]\<close> accepts.\<close>

definition valid_id :: "string list \<Rightarrow> int \<Rightarrow> bool" where
  "valid_id names i \<longleftrightarrow> - int (length names) \<le> i \<and> i < int (length names)"

section \<open>The normalizer: \<^verbatim>\<open>load_cifar\<close>\<close>

text \<open>
  An image tensor of shape \<open>(N, H, W, C)\<close> is the list of its \<open>N\<close> samples, each the list of its
  entries (one per pixel position and channel).  The entries are float64 numbers, taken
  here as the reals they denote.  numpy rounds after every operation and adds the entries
  of an array in an order of its own, so the arithmetic is a parameter: a \<open>float_ops\<close> holds
  the rounded operations, the sum over a flattened array and the sum along an axis, and
  every theorem on the normalizer holds for any choice of them.  \<open>exact_ops\<close> is the
  arithmetic without rounding; it agrees with float64 on the small integers, halves and
  quarters of the examples.  The statistics of an empty tensor, which numpy reports as
  \<open>nan\<close>, have no counterpart, so the theorems on their values are stated for non-empty
  tensors.
\<close>

type_synonym tensor = "real list list"

record float_ops =
  f_round :: "real \<Rightarrow> real"
  f_add :: "real \<Rightarrow> real \<Rightarrow> real"
  f_sub :: "real \<Rightarrow> real \<Rightarrow> real"
  f_mul :: "real \<Rightarrow> real \<Rightarrow> real"
  f_div :: "real \<Rightarrow> real \<Rightarrow> real"
  f_sqrt :: "real \<Rightarrow> real"
  f_sum_flat :: "real list \<Rightarrow> real"
  f_sum_axis :: "real list \<Rightarrow> real"

definition exact_ops :: float_ops where
  "exact_ops =
     \<lparr>f_round = (\<lambda>x. x), f_add = (+), f_sub = (-), f_mul = (*), f_div = (/), f_sqrt = sqrt,
      f_sum_flat = sum_list, f_sum_axis = sum_list\<rparr>"

text \<open>Line 42: the float64 number written \<^verbatim>\<open>1e-8\<close>.\<close>

definition EPSILON :: "float_ops \<Rightarrow> real" where
  "EPSILON ops = f_round ops (1 / 10 ^ 8)"

text \<open>\<^verbatim>\<open>np.mean\<close> with no axis: the sum over the flattened array, divided by the number of
  entries.\<close>

definition np_mean :: "float_ops \<Rightarrow> real list \<Rightarrow> real" where
  "np_mean ops xs = f_div ops (f_sum_flat ops xs) (real (length xs))"

text \<open>\<^verbatim>\<open>np.mean(X)\<close> of a tensor: the entries in row-major order.\<close>

definition np_mean_all :: "float_ops \<Rightarrow> tensor \<Rightarrow> real" where
  "np_mean_all ops X = np_mean ops (concat X)"

text \<open>\<^verbatim>\<open>np.std\<close> along an axis, for the entries at one position: the mean along the axis,
  the deviations from it, their squares, the mean of the squares (numpy divides by the
  number of entries), the square root.\<close>

definition np_std :: "float_ops \<Rightarrow> real list \<Rightarrow> real" where
  "np_std ops xs =
     (let arrmean = f_div ops (f_sum_axis ops xs) (real (length xs));
          x = map (\<lambda>a. f_sub ops a arrmean) xs;
          x2 = map (\<lambda>d. f_mul ops d d) x
      in f_sqrt ops (f_div ops (f_sum_axis ops x2) (real (length xs))))"

text \<open>\<^verbatim>\<open>np.std(X, axis=0)\<close>: one standard deviation per position, taken over the samples.\<close>

definition np_std_axis0 :: "float_ops \<Rightarrow> tensor \<Rightarrow> real list" where
  "np_std_axis0 ops X =
     (case X of [] \<Rightarrow> []
      | s # _ \<Rightarrow> map (\<lambda>j. np_std ops (map (\<lambda>t. t ! j) X)) [0..<length s])"

text \<open>Python 2 \<^verbatim>\<open>range(a, b)\<close>.\<close>

definition py_range :: "int \<Rightarrow> int \<Rightarrow> int list" where
  "py_range a b = [a..b - 1]"

text \<open>\<^verbatim>\<open>X[idxs]\<close> for a list of integers: a copy of the selected rows; negative indices
  count from the end, an index out of range raises IndexError.\<close>

definition np_take :: "'a list \<Rightarrow> int list \<Rightarrow> error + 'a list" where
  "np_take xs idxs =
     (let n = int (length xs)
      in if \<forall>i \<in> set idxs. - n \<le> i \<and> i < n
         then Inr (map (\<lambda>i. xs ! nat (if i < 0 then n + i else i)) idxs)
         else Inl IndexError)"

text \<open>\<^verbatim>\<open>X -= c\<close> and \<^verbatim>\<open>X /= c\<close>, entry by entry.\<close>

definition tensor_sub :: "float_ops \<Rightarrow> tensor \<Rightarrow> real \<Rightarrow> tensor" where
  "tensor_sub ops X c = map (map (\<lambda>x. f_sub ops x c)) X"

definition tensor_div :: "float_ops \<Rightarrow> tensor \<Rightarrow> real \<Rightarrow> tensor" where
  "tensor_div ops X c = map (map (\<lambda>x. f_div ops x c)) X"

text \<open>
  \<^verbatim>\<open>load_cifar\<close> from line 145 on, after the raw arrays have been read: the two statistics
  are taken from \<open>X_train\<close> as loaded, printed, and only then are the validation, training
  and test subsets cut out and normalised.  The module constant \<open>EPSILON\<close> is a parameter of
  \<open>load_cifar_with\<close>; \<open>load_cifar\<close> is the function of the source.
\<close>

record 'y cifar_split =
  cifar_X_train :: tensor
  cifar_y_train :: "'y list"
  cifar_X_val :: tensor
  cifar_y_val :: "'y list"
  cifar_X_test :: tensor
  cifar_y_test :: "'y list"

record 'y cifar_run =
  printed :: "real \<times> real"
  returned :: "error + 'y cifar_split"

definition load_cifar_with ::
  "float_ops \<Rightarrow> real \<Rightarrow> tensor \<Rightarrow> 'y list \<Rightarrow> tensor \<Rightarrow> 'y list \<Rightarrow> int \<Rightarrow> int \<Rightarrow> int \<Rightarrow> bool
     \<Rightarrow> 'y cifar_run" where
  "load_cifar_with ops eps X_train y_train X_test y_test num_training num_validation num_test
       normalize_flag =
     (let mean_image = np_mean_all ops X_train;
          std_deviation = np_mean ops (np_std_axis0 ops X_train)
      in \<lparr>printed = (mean_image, std_deviation),
          returned =
            (case np_take X_train (py_range num_training (num_training + num_validation)) of
               Inl e \<Rightarrow> Inl e
             | Inr X_val \<Rightarrow>
            (case np_take y_train (py_range num_training (num_training + num_validation)) of
               Inl e \<Rightarrow> Inl e
             | Inr y_val \<Rightarrow>
            (case np_take X_train (py_range 0 num_training) of
               Inl e \<Rightarrow> Inl e
             | Inr X_tr \<Rightarrow>
            (case np_take y_train (py_range 0 num_training) of
               Inl e \<Rightarrow> Inl e
             | Inr y_tr \<Rightarrow>
            (case np_take X_test (py_range 0 num_test) of
               Inl e \<Rightarrow> Inl e
             | Inr X_te \<Rightarrow>
            (case np_take y_test (py_range 0 num_test) of
               Inl e \<Rightarrow> Inl e
             | Inr y_te \<Rightarrow>
                 if normalize_flag
                 then Inr \<lparr>cifar_X_train = tensor_div ops (tensor_sub ops X_tr mean_image)
                                             (f_add ops std_deviation eps),
                           cifar_y_train = y_tr,
                           cifar_X_val = tensor_div ops (tensor_sub ops X_val mean_image)
                                             (f_add ops std_deviation eps),
                           cifar_y_val = y_val,
                           cifar_X_test = tensor_div ops (tensor_sub ops X_te mean_image)
                                             (f_add ops std_deviation eps),
                           cifar_y_test = y_te\<rparr>
                 else Inr \<lparr>cifar_X_train = X_tr, cifar_y_train = y_tr,
                           cifar_X_val = X_val, cifar_y_val = y_val,
                           cifar_X_test = X_te, cifar_y_test = y_te\<rparr>))))))\<rparr>)"

definition load_cifar ::
  "float_ops \<Rightarrow> tensor \<Rightarrow> 'y list \<Rightarrow> tensor \<Rightarrow> 'y list \<Rightarrow> int \<Rightarrow> int \<Rightarrow> int \<Rightarrow> bool
     \<Rightarrow> 'y cifar_run" where
  "load_cifar ops = load_cifar_with ops (EPSILON ops)"

subsection \<open>The statistics as the specification words them\<close>

text \<open>The arithmetic mean over all entries: their sum divided by their number; the standard
  deviation at one position, taken along the sample axis; the mean of these over the
  positions; the standard deviation of the flattened tensor (which the scale is not); the
  transform \<open>(x - mean) / (scale + \<epsilon>)\<close>.\<close>

definition spec_mean :: "float_ops \<Rightarrow> tensor \<Rightarrow> real" where
  "spec_mean ops X =
     f_div ops (f_sum_flat ops (concat X)) (real (length X) * real (length (hd X)))"

definition position_std :: "float_ops \<Rightarrow> tensor \<Rightarrow> nat \<Rightarrow> real" where
  "position_std ops X j =
     f_sqrt ops (f_div ops
       (f_sum_axis ops
          (map (\<lambda>s. f_mul ops
                  (f_sub ops (s ! j) (f_div ops (f_sum_axis ops (map (\<lambda>t. t ! j) X)) (real (length X))))
                  (f_sub ops (s ! j) (f_div ops (f_sum_axis ops (map (\<lambda>t. t ! j) X)) (real (length X)))))
             X))
       (real (length X)))"

definition spec_scale :: "float_ops \<Rightarrow> tensor \<Rightarrow> real" where
  "spec_scale ops X =
     f_div ops (f_sum_flat ops (map (position_std ops X) [0..<length (hd X)]))
       (real (length (hd X)))"

definition flat_std :: "float_ops \<Rightarrow> tensor \<Rightarrow> real" where
  "flat_std ops X =
     f_sqrt ops (f_div ops
       (f_sum_flat ops
          (map (\<lambda>x. f_mul ops (f_sub ops x (spec_mean ops X)) (f_sub ops x (spec_mean ops X)))
             (concat X)))
       (real (length X) * real (length (hd X))))"

definition transform :: "float_ops \<Rightarrow> real \<Rightarrow> real \<Rightarrow> real \<Rightarrow> tensor \<Rightarrow> tensor" where
  "transform ops m s eps X = map (map (\<lambda>x. f_div ops (f_sub ops x m) (f_add ops s eps))) X"

section \<open>The taxonomy builder and its cache\<close>

text \<open>
  \<^verbatim>\<open>create_coarse_to_fine_map\<close> fills a \<^verbatim>\<open>defaultdict(set)\<close>, a map from coarse names to sets of
  fine names, replaces each set by \<^verbatim>\<open>sorted(list(...))\<close>, pickles the dictionary and returns
  it.  Python 2 compares \<^verbatim>\<open>str\<close> values byte by byte, which is the lexicographic order of
  \<open>string\<close> here.
\<close>

type_synonym taxonomy = "string \<rightharpoonup> string list"

text \<open>Lines 358-362, for one row \<open>[fine_id, coarse_id]\<close> of \<open>y_train\<close>: reading
  \<^verbatim>\<open>coarse_to_fine_map[coarse_label]\<close> creates an empty bucket when the key is new.\<close>

definition builder_step ::
  "string list \<Rightarrow> string list \<Rightarrow> label_row \<Rightarrow> (string \<rightharpoonup> string set)
     \<Rightarrow> error + (string \<rightharpoonup> string set)" where
  "builder_step fine_label_names coarse_label_names row m =
     (case py_index coarse_label_names (snd row) of
        Inl e \<Rightarrow> Inl e
      | Inr coarse_label \<Rightarrow>
         (case py_index fine_label_names (fst row) of
            Inl e \<Rightarrow> Inl e
          | Inr fine_label \<Rightarrow>
             (let bucket = (case m coarse_label of None \<Rightarrow> {} | Some S \<Rightarrow> S)
              in Inr (m(coarse_label \<mapsto>
                        (if fine_label \<notin> bucket then insert fine_label bucket else bucket))))))"

fun builder_loop ::
  "string list \<Rightarrow> string list \<Rightarrow> label_row list \<Rightarrow> (string \<rightharpoonup> string set)
     \<Rightarrow> error + (string \<rightharpoonup> string set)" where
  "builder_loop fine_label_names coarse_label_names [] m = Inr m"
| "builder_loop fine_label_names coarse_label_names (row # rest) m =
     (case builder_step fine_label_names coarse_label_names row m of
        Inl e \<Rightarrow> Inl e
      | Inr m' \<Rightarrow> builder_loop fine_label_names coarse_label_names rest m')"

text \<open>Lines 364-365.\<close>

definition sort_buckets :: "(string \<rightharpoonup> string set) \<Rightarrow> taxonomy" where
  "sort_buckets m = (\<lambda>k. map_option sorted_list_of_set (m k))"

text \<open>The files of the working directory, by name.  \<^verbatim>\<open>pickle\<close> is a library: its two
  directions are the parameters \<open>dumps\<close> and \<open>loads\<close> (\<open>None\<close> when the bytes cannot be read back).\<close>

type_synonym 'blob file_system = "string \<rightharpoonup> 'blob"

definition pickle_dump ::
  "('obj \<Rightarrow> 'blob) \<Rightarrow> 'obj \<Rightarrow> string \<Rightarrow> 'blob file_system \<Rightarrow> 'blob file_system" where
  "pickle_dump dumps obj path fs = fs(path \<mapsto> dumps obj)"

definition pickle_load ::
  "('blob \<Rightarrow> 'obj option) \<Rightarrow> string \<Rightarrow> 'blob file_system \<Rightarrow> error + 'obj" where
  "pickle_load loads path fs =
     (case fs path of
        None \<Rightarrow> Inl IOError
      | Some blob \<Rightarrow> (case loads blob of None \<Rightarrow> Inl UnpicklingError | Some obj \<Rightarrow> Inr obj))"

text \<open>Lines 344-346.\<close>

definition load_coarse_to_fine_map ::
  "('blob \<Rightarrow> taxonomy option) \<Rightarrow> 'blob file_system \<Rightarrow> error + taxonomy" where
  "load_coarse_to_fine_map loads fs = pickle_load loads ''coarse_to_fine_map.pickle'' fs"

text \<open>Lines 349-369; the function returns the dictionary and leaves the file behind.\<close>

definition create_coarse_to_fine_map ::
  "(taxonomy \<Rightarrow> 'blob) \<Rightarrow> label_row list \<Rightarrow> string list \<Rightarrow> string list \<Rightarrow> 'blob file_system
     \<Rightarrow> (error + taxonomy) \<times> 'blob file_system" where
  "create_coarse_to_fine_map dumps y_train fine_label_names coarse_label_names fs =
     (case builder_loop fine_label_names coarse_label_names y_train Map.empty of
        Inl e \<Rightarrow> (Inl e, fs)
      | Inr m \<Rightarrow>
          (let coarse_to_fine_map = sort_buckets m
           in (Inr coarse_to_fine_map,
               pickle_dump dumps coarse_to_fine_map ''coarse_to_fine_map.pickle'' fs)))"

subsection \<open>The pickle machine\<close>

text \<open>
  \<^verbatim>\<open>pickle.dump\<close> writes a program for a stack machine and \<^verbatim>\<open>pickle.load\<close> runs it.  The
  model is the part of protocol 0, the default of Python 2, that a taxonomy needs: the
  opcodes the pickler writes for a \<^verbatim>\<open>defaultdict(set)\<close> whose keys are strings and whose
  values are lists of strings, and the unpickler's action for each of them.  An opcode
  carries its argument as a value (the bytes of the file spell the same opcodes, with
  the string of \<open>STRING\<close> quoted); the pickler writes a string again when it meets it a
  second time, where \<^verbatim>\<open>pickle\<close> writes a reference to the first.
\<close>

datatype opcode =
    GLOBAL string string
  | MARK
  | TUPLE
  | REDUCE
  | PUT nat
  | STRING string
  | LIST
  | APPEND
  | SETITEM
  | STOP

text \<open>What the unpickler holds on its stack: the mark, strings, lists, tuples, a global
  looked up by module and name, and a \<^verbatim>\<open>defaultdict\<close> with its factory and its entries.\<close>

datatype pyobj =
    OMark
  | OStr string
  | OList "pyobj list"
  | OTuple "pyobj list"
  | OGlobal string string
  | ODefaultdict pyobj "(pyobj \<times> pyobj) list"

text \<open>The pickler.  A list is written as \<open>MARK LIST\<close>, memoised, and each element is followed
  by \<open>APPEND\<close>; each entry of the dictionary is written as key, value, \<open>SETITEM\<close>; every
  object written is memoised by a \<open>PUT\<close> with the next free index.\<close>

fun save_appends :: "nat \<Rightarrow> string list \<Rightarrow> opcode list" where
  "save_appends n [] = []"
| "save_appends n (s # rest) = [STRING s, PUT n, APPEND] @ save_appends (Suc n) rest"

definition save_list :: "nat \<Rightarrow> string list \<Rightarrow> opcode list" where
  "save_list n names = [MARK, LIST, PUT n] @ save_appends (Suc n) names"

fun save_setitems :: "nat \<Rightarrow> (string \<times> string list) list \<Rightarrow> opcode list" where
  "save_setitems n [] = []"
| "save_setitems n ((k, v) # rest) =
     [STRING k, PUT n] @ save_list (Suc n) v @ [SETITEM]
       @ save_setitems (n + 2 + length v) rest"

text \<open>\<^verbatim>\<open>iteritems()\<close> of the dictionary, where \<open>keys\<close> is the order in which the dictionary
  yields its keys.\<close>

definition dict_items :: "string list \<Rightarrow> taxonomy \<Rightarrow> (string \<times> string list) list" where
  "dict_items keys T = concat (map (\<lambda>k. case T k of None \<Rightarrow> [] | Some v \<Rightarrow> [(k, v)]) keys)"

text \<open>A \<^verbatim>\<open>defaultdict\<close> is written through its \<^verbatim>\<open>__reduce__\<close>: the class, the tuple \<^verbatim>\<open>(set,)\<close>
  of its arguments, \<open>REDUCE\<close>, then the entries, then \<open>STOP\<close>.\<close>

definition pickle_dumps :: "string list \<Rightarrow> taxonomy \<Rightarrow> opcode list" where
  "pickle_dumps keys T =
     [GLOBAL ''collections'' ''defaultdict'', PUT 0,
      MARK, GLOBAL ''__builtin__'' ''set'', PUT 1, TUPLE, PUT 2,
      REDUCE, PUT 3]
     @ save_setitems 4 (dict_items keys T) @ [STOP]"

text \<open>The unpickler.  \<open>pop_mark\<close> takes the objects above the topmost mark, oldest first.\<close>

fun pop_mark :: "pyobj list \<Rightarrow> (pyobj list \<times> pyobj list) option" where
  "pop_mark [] = None"
| "pop_mark (OMark # stack) = Some ([], stack)"
| "pop_mark (v # stack) =
     (case pop_mark stack of None \<Rightarrow> None | Some (popped, remaining) \<Rightarrow> Some (popped @ [v], remaining))"

fun do_append :: "pyobj list \<Rightarrow> pyobj list option" where
  "do_append (v # OList xs # stack) = Some (OList (xs @ [v]) # stack)"
| "do_append stack = None"

text \<open>\<^verbatim>\<open>d[k] = v\<close> on the entries of a dictionary.\<close>

fun dict_setitem :: "(pyobj \<times> pyobj) list \<Rightarrow> pyobj \<Rightarrow> pyobj \<Rightarrow> (pyobj \<times> pyobj) list" where
  "dict_setitem [] k v = [(k, v)]"
| "dict_setitem ((k', v') # rest) k v =
     (if k' = k then (k, v) # rest else (k', v') # dict_setitem rest k v)"

fun do_setitem :: "pyobj list \<Rightarrow> pyobj list option" where
  "do_setitem (v # k # ODefaultdict factory entries # stack) =
     Some (ODefaultdict factory (dict_setitem entries k v) # stack)"
| "do_setitem stack = None"

text \<open>\<open>REDUCE\<close> calls the global with the tuple of arguments; the only callable a taxonomy
  needs is \<^verbatim>\<open>defaultdict\<close>, with one argument, its factory.\<close>

fun do_reduce :: "pyobj list \<Rightarrow> pyobj list option" where
  "do_reduce (OTuple args # OGlobal m n # stack) =
     (if m = ''collections'' \<and> n = ''defaultdict'' \<and> length args = 1
      then Some (ODefaultdict (hd args) [] # stack) else None)"
| "do_reduce stack = None"

text \<open>One opcode after the other; a stream that ends without \<open>STOP\<close>, or an opcode that
  does not find its operands on the stack, fails.\<close>

fun unpickle :: "opcode list \<Rightarrow> pyobj list \<Rightarrow> (nat \<rightharpoonup> pyobj) \<Rightarrow> pyobj option" where
  "unpickle [] stack memo = None"
| "unpickle (STOP # rest) stack memo = (case stack of [] \<Rightarrow> None | v # remaining \<Rightarrow> Some v)"
| "unpickle (GLOBAL m n # rest) stack memo = unpickle rest (OGlobal m n # stack) memo"
| "unpickle (MARK # rest) stack memo = unpickle rest (OMark # stack) memo"
| "unpickle (STRING s # rest) stack memo = unpickle rest (OStr s # stack) memo"
| "unpickle (PUT i # rest) stack memo =
     (case stack of [] \<Rightarrow> None | v # remaining \<Rightarrow> unpickle rest stack (memo(i \<mapsto> v)))"
| "unpickle (TUPLE # rest) stack memo =
     (case pop_mark stack of
        None \<Rightarrow> None
      | Some (popped, remaining) \<Rightarrow> unpickle rest (OTuple popped # remaining) memo)"
| "unpickle (LIST # rest) stack memo =
     (case pop_mark stack of
        None \<Rightarrow> None
      | Some (popped, remaining) \<Rightarrow> unpickle rest (OList popped # remaining) memo)"
| "unpickle (REDUCE # rest) stack memo =
     (case do_reduce stack of None \<Rightarrow> None | Some stack' \<Rightarrow> unpickle rest stack' memo)"
| "unpickle (APPEND # rest) stack memo =
     (case do_append stack of None \<Rightarrow> None | Some stack' \<Rightarrow> unpickle rest stack' memo)"
| "unpickle (SETITEM # rest) stack memo =
     (case do_setitem stack of None \<Rightarrow> None | Some stack' \<Rightarrow> unpickle rest stack' memo)"

text \<open>The loaded object read as a taxonomy: a dictionary from strings to lists of strings.\<close>

fun str_of :: "pyobj \<Rightarrow> string option" where
  "str_of (OStr s) = Some s"
| "str_of obj = None"

fun strs_of :: "pyobj \<Rightarrow> string list option" where
  "strs_of (OList xs) = those (map str_of xs)"
| "strs_of obj = None"

fun taxonomy_of :: "pyobj \<Rightarrow> taxonomy option" where
  "taxonomy_of (ODefaultdict factory entries) =
     (if \<forall>(k, v) \<in> set entries. str_of k \<noteq> None \<and> strs_of v \<noteq> None
      then Some (\<lambda>c. case map_of entries (OStr c) of None \<Rightarrow> None | Some v \<Rightarrow> strs_of v)
      else None)"
| "taxonomy_of obj = None"

definition pickle_loads :: "opcode list \<Rightarrow> taxonomy option" where
  "pickle_loads ops =
     (case unpickle ops [] Map.empty of None \<Rightarrow> None | Some obj \<Rightarrow> taxonomy_of obj)"

text \<open>A list of names, and the entries of a dictionary after a sequence of assignments, as
  the unpickler holds them.\<close>

definition enc_list :: "string list \<Rightarrow> pyobj" where
  "enc_list names = OList (map OStr names)"

definition set_all :: "(string \<times> string list) list \<Rightarrow> (pyobj \<times> pyobj) list \<Rightarrow> (pyobj \<times> pyobj) list" where
  "set_all items entries = fold (\<lambda>(k, v) es. dict_setitem es (OStr k) (enc_list v)) items entries"

text \<open>The fine-label names observed under the coarse-label name \<open>c\<close> in a corpus.\<close>

definition observed :: "string list \<Rightarrow> string list \<Rightarrow> label_row list \<Rightarrow> string \<Rightarrow> string set" where
  "observed fine_label_names coarse_label_names y c =
     {f. \<exists>row \<in> set y. py_index coarse_label_names (snd row) = Inr c
                      \<and> py_index fine_label_names (fst row) = Inr f}"

text \<open>Both ids of a row index their name tables.\<close>

definition valid_row :: "string list \<Rightarrow> string list \<Rightarrow> label_row \<Rightarrow> bool" where
  "valid_row fine_label_names coarse_label_names row \<longleftrightarrow>
     valid_id coarse_label_names (snd row) \<and> valid_id fine_label_names (fst row)"

text \<open>The bucket a \<^verbatim>\<open>defaultdict(set)\<close> yields for a key.\<close>

definition bucket_of :: "(string \<rightharpoonup> string set) \<Rightarrow> string \<Rightarrow> string set" where
  "bucket_of m c = (case m c of None \<Rightarrow> {} | Some S \<Rightarrow> S)"

section \<open>The pyramid data loader: \<^verbatim>\<open>load_data_pyramid\<close>\<close>

text \<open>
  \<^verbatim>\<open>load_cifar_pyramid()\<close> and \<^verbatim>\<open>load_cifar100_prefeaturized()\<close> take no argument and read
  their data from disk; \<open>disk\<close> holds what they read.  The pickled feature set is stored
  as the eight values it unpacks to, or the error that reading it raises.
\<close>

record 'img disk =
  disk_X_train :: "'img list"
  disk_y_train :: "label_row list"
  disk_X_test :: "'img list"
  disk_y_test :: "label_row list"
  disk_coarse_to_fine_map :: taxonomy_items
  disk_fine_label_names :: "string list"
  disk_prefeaturized :: "error + 'img pyramid"

text \<open>What \<^verbatim>\<open>load_data_pyramid\<close> returns: one of four tuples, or \<^verbatim>\<open>None\<close> when the function
  falls off its last \<^verbatim>\<open>elif\<close>.\<close>

datatype 'img subset =
    ReturnAll "'img pyramid"
  | ReturnJoint "'img list" "label_row list"
  | ReturnGate "'img list" "label_row list" "int list"
  | ReturnTest "'img list" "label_row list" "int list"
  | PyNone

definition run_load_cifar_pyramid :: "'img disk \<Rightarrow> error + 'img pyramid" where
  "run_load_cifar_pyramid disk =
     load_cifar_pyramid (disk_X_train disk) (disk_y_train disk) (disk_X_test disk)
       (disk_y_test disk) (disk_coarse_to_fine_map disk) (disk_fine_label_names disk)"

definition load_cifar100_prefeaturized :: "'img disk \<Rightarrow> error + 'img pyramid" where
  "load_cifar100_prefeaturized disk = disk_prefeaturized disk"

text \<open>\<^verbatim>\<open>data_utils.py\<close>, lines 89-106.\<close>

definition load_data_pyramid :: "'img disk \<Rightarrow> string \<Rightarrow> string \<Rightarrow> error + 'img subset" where
  "load_data_pyramid disk dataset return_subset =
     (case (if dataset = ''cifar100_joint'' then run_load_cifar_pyramid disk
            else if dataset = ''cifar100_joint_prefeaturized'' then load_cifar100_prefeaturized disk
            else Inl (DatasetNotFound dataset)) of
        Inl e \<Rightarrow> Inl e
      | Inr p \<Rightarrow>
          if return_subset = ''all'' then Inr (ReturnAll p)
          else if return_subset = ''joint_only''
            then Inr (ReturnJoint (X_train_joint p) (y_train_joint p))
          else if return_subset = ''gate_only''
            then Inr (ReturnGate (X_train_gate p) (y_train_gate p) (fine_or_coarse_train_gate p))
          else if return_subset = ''test_only''
            then Inr (ReturnTest (X_test_all p) (y_test_all p) (fine_or_coarse_test p))
          else Inr PyNone)"

text \<open>\<^verbatim>\<open>pipeline.py\<close>, lines 178-191: an unknown dataset is only reported, and the eight
  variables stay unbound.\<close>

definition pipeline_load_data_pyramid ::
  "'img disk \<Rightarrow> string \<Rightarrow> string \<Rightarrow> error + 'img subset" where
  "pipeline_load_data_pyramid disk dataset return_subset =
     (case (if dataset = ''cifar100_joint'' then map_sum id Some (run_load_cifar_pyramid disk)
            else Inr None) of
        Inl e \<Rightarrow> Inl e
      | Inr bound \<Rightarrow>
          if return_subset = ''all''
            then (case bound of None \<Rightarrow> Inl UnboundLocalError | Some p \<Rightarrow> Inr (ReturnAll p))
          else if return_subset = ''joint_only''
            then (case bound of None \<Rightarrow> Inl UnboundLocalError
                  | Some p \<Rightarrow> Inr (ReturnJoint (X_train_joint p) (y_train_joint p)))
          else if return_subset = ''gate_only''
            then (case bound of None \<Rightarrow> Inl UnboundLocalError
                  | Some p \<Rightarrow> Inr (ReturnGate (X_train_gate p) (y_train_gate p)
                                    (fine_or_coarse_train_gate p)))
          else if return_subset = ''test_only''
            then (case bound of None \<Rightarrow> Inl UnboundLocalError
                  | Some p \<Rightarrow> Inr (ReturnTest (X_test_all p) (y_test_all p)
                                    (fine_or_coarse_test p)))
          else Inr PyNone)"

text \<open>A small corpus and a disk for the examples.\<close>

definition example_rows :: "label_row list" where
  "example_rows = [(0, 0), (1, 0), (2, 1), (0, 0)]"

definition example_fine_names :: "string list" where
  "example_fine_names = [''pear'', ''apple'', ''plum'']"

definition example_coarse_names :: "string list" where
  "example_coarse_names = [''fruit'', ''other'']"

definition example_disk :: "nat disk" where
  "example_disk =
     \<lparr>disk_X_train = [10, 11], disk_y_train = [(1, 0), (5, 1)],
      disk_X_test = [12], disk_y_test = [(4, 0)],
      disk_coarse_to_fine_map = scenario_taxonomy,
      disk_fine_label_names = scenario_names,
      disk_prefeaturized =
        Inr \<lparr>X_train_joint = [20], y_train_joint = [(0, 0)],
             X_train_gate = [20, 21], y_train_gate = [(0, 0), (2, 0)],
             fine_or_coarse_train_gate = [0, 1],
             X_test_all = [22], y_test_all = [(4, 0)], fine_or_coarse_test = [1]\<rparr>\<rparr>"

section \<open>Properties of the partitioner\<close>


lemma py_index_4: "py_index fl 4 = (if 5 \<le> length fl then Inr (fl ! 4) else Inl IndexError)"
  by (auto simp: py_index_def Let_def)

lemma label_sets_loop_short:
  "(c, fl) \<in> set items \<Longrightarrow> length fl < 5 \<Longrightarrow> label_sets_loop items acc = Inl IndexError"
proof (induction items arbitrary: acc)
  case Nil
  then show ?case by simp
next
  case (Cons it items)
  obtain c' fl' where it: "it = (c', fl')" by (cases it)
  obtain J G T where acc: "acc = (J, G, T)" by (cases acc) auto
  show ?case
  proof (cases "5 \<le> length fl'")
    case True
    with Cons.prems it have "(c, fl) \<in> set items" by auto
    with Cons.IH Cons.prems True show ?thesis by (simp add: it acc py_index_4)
  next
    case False
    then show ?thesis by (simp add: it acc py_index_4)
  qed
qed

lemma label_sets_loop_Inr:
  "label_sets_loop items (J, G, T) = Inr (J', G', T') \<Longrightarrow>
     J' = J \<union> joint_set items \<and> G' = G \<union> gate_set items \<and>
     T' = T \<union> (\<Union>(c, fl) \<in> set items. py_set_of_str (fl ! 4)) \<and>
     (\<forall>(c, fl) \<in> set items. 5 \<le> length fl)"
proof (induction items arbitrary: J G T)
  case Nil
  then show ?case by (simp add: joint_set_def gate_set_def)
next
  case (Cons it items)
  obtain c' fl' where it: "it = (c', fl')" by (cases it)
  from Cons.prems have len: "5 \<le> length fl'"
    by (simp add: it py_index_4 split: if_splits)
  with Cons.prems have
    "label_sets_loop items (J \<union> py_set_of_strs (take 2 fl'), G \<union> py_set_of_strs (take 4 fl'),
        T \<union> py_set_of_str (fl' ! 4)) = Inr (J', G', T')"
    by (simp add: it py_index_4)
  from Cons.IH [OF this] len show ?case
    by (auto simp: it joint_set_def gate_set_def py_set_of_strs_def)
qed

lemma label_sets_loop_total:
  "\<forall>(c, fl) \<in> set items. 5 \<le> length fl \<Longrightarrow> \<exists>r. label_sets_loop items acc = Inr r"
proof (induction items arbitrary: acc)
  case Nil
  then show ?case by (intro exI[of _ acc]) simp
next
  case (Cons it items)
  obtain c' fl' where it: "it = (c', fl')" by (cases it)
  obtain J G T where acc: "acc = (J, G, T)" by (cases acc) auto
  from Cons show ?case by (simp add: it acc py_index_4)
qed

lemma test_loop_eq:
  "\<forall>i \<in> set is. i < length y \<Longrightarrow>
     test_loop y J is acc = Inr (acc @ map (\<lambda>i. if PyInt (fst (y ! i)) \<in> J then 0 else 1) is)"
  by (induction "is" arbitrary: acc) (simp_all add: np_row_def)

lemma test_loop_Inr:
  "test_loop y J is acc = Inr r \<Longrightarrow> \<forall>i \<in> set is. i < length y"
  by (induction "is" arbitrary: acc) (auto simp: np_row_def split: if_splits)

lemma test_loop_err:
  "test_loop y J is acc = Inl e \<Longrightarrow> e = IndexError"
  by (induction "is" arbitrary: acc) (auto simp: np_row_def split: if_splits)

lemma py_index_Inr_iff: "(\<exists>n. py_index names i = Inr n) \<longleftrightarrow> valid_id names i"
  by (auto simp: py_index_def valid_id_def Let_def)

lemma py_index_err: "py_index names i = Inl e \<Longrightarrow> e = IndexError"
  by (auto simp: py_index_def Let_def split: if_splits)

lemma train_step_Inr:
  assumes "train_step X y names J G i st = Inr st'"
  shows "i < length y \<and> valid_id names (fst (y ! i)) \<and>
     acc_X_joint st' = acc_X_joint st @ (if name_in names J (y ! i) then [X ! i] else []) \<and>
     acc_y_joint st' = acc_y_joint st @ (if name_in names J (y ! i) then [y ! i] else []) \<and>
     acc_X_gate st' = acc_X_gate st @ (if name_in names G (y ! i) then [X ! i] else []) \<and>
     acc_y_gate st' = acc_y_gate st @ (if name_in names G (y ! i) then [y ! i] else []) \<and>
     acc_flags st' = acc_flags st @
       (if name_in names G (y ! i) then [if name_in names J (y ! i) then 0 else 1] else [])"
proof -
  from assms have i: "i < length y"
    by (auto simp: train_step_def np_row_def split: if_splits)
  with assms obtain n where n: "py_index names (fst (y ! i)) = Inr n"
    by (auto simp: train_step_def np_row_def split: sum.splits)
  then have v: "valid_id names (fst (y ! i))" using py_index_Inr_iff by blast
  show ?thesis
  proof (cases "PyStr n \<in> J"; cases "PyStr n \<in> G")
  qed (use assms i n v in \<open>auto simp: train_step_def np_row_def name_in_def Let_def\<close>)
qed

lemma train_step_total:
  "i < length y \<Longrightarrow> valid_id names (fst (y ! i)) \<Longrightarrow> \<exists>st'. train_step X y names J G i st = Inr st'"
  using py_index_Inr_iff [of names "fst (y ! i)"]
  by (auto simp: train_step_def np_row_def Let_def)

lemma train_step_err: "train_step X y names J G i st = Inl e \<Longrightarrow> e = IndexError"
  by (auto simp: train_step_def np_row_def Let_def split: if_splits sum.splits dest: py_index_err)

lemma train_loop_Inr:
  "train_loop X y names J G is st = Inr st' \<Longrightarrow>
     (\<forall>i \<in> set is. i < length y \<and> valid_id names (fst (y ! i))) \<and>
     acc_X_joint st' = acc_X_joint st @ map (\<lambda>i. X ! i) (filter (\<lambda>i. name_in names J (y ! i)) is) \<and>
     acc_y_joint st' = acc_y_joint st @ map (\<lambda>i. y ! i) (filter (\<lambda>i. name_in names J (y ! i)) is) \<and>
     acc_X_gate st' = acc_X_gate st @ map (\<lambda>i. X ! i) (filter (\<lambda>i. name_in names G (y ! i)) is) \<and>
     acc_y_gate st' = acc_y_gate st @ map (\<lambda>i. y ! i) (filter (\<lambda>i. name_in names G (y ! i)) is) \<and>
     acc_flags st' = acc_flags st @
        map (\<lambda>i. if name_in names J (y ! i) then 0 else 1) (filter (\<lambda>i. name_in names G (y ! i)) is)"
proof (induction "is" arbitrary: st)
  case Nil
  then show ?case by simp
next
  case (Cons i rest)
  from Cons.prems obtain st1 where s1: "train_step X y names J G i st = Inr st1"
    and s2: "train_loop X y names J G rest st1 = Inr st'"
    by (auto split: sum.splits)
  from train_step_Inr [OF s1] Cons.IH [OF s2] show ?case by simp
qed

lemma train_loop_total:
  "\<forall>i \<in> set is. i < length y \<and> valid_id names (fst (y ! i)) \<Longrightarrow>
     \<exists>st'. train_loop X y names J G is st = Inr st'"
proof (induction "is" arbitrary: st)
  case Nil
  then show ?case by simp
next
  case (Cons i rest)
  then obtain st1 where "train_step X y names J G i st = Inr st1"
    using train_step_total [of i y names X J G st] by auto
  with Cons show ?case by simp
qed

lemma train_loop_err: "train_loop X y names J G is st = Inl e \<Longrightarrow> e = IndexError"
  by (induction "is" arbitrary: st) (auto split: sum.splits dest: train_step_err)

lemma zip_as_index_map:
  "length X \<le> length y \<Longrightarrow> map (\<lambda>i. (X ! i, y ! i)) [0..<length X] = zip X y"
  by (intro nth_equalityI) auto

lemma filter_index_zip:
  assumes "length X \<le> length y"
  shows "map (\<lambda>i. (X ! i, y ! i)) (filter (\<lambda>i. P (y ! i)) [0..<length X])
           = filter (\<lambda>(x, r). P r) (zip X y)"
proof -
  have "filter (\<lambda>(x, r). P r) (map (\<lambda>i. (X ! i, y ! i)) [0..<length X])
          = map (\<lambda>i. (X ! i, y ! i)) (filter (\<lambda>i. P (y ! i)) [0..<length X])"
    by (simp add: filter_map comp_def)
  with zip_as_index_map [OF assms] show ?thesis by simp
qed

lemma load_cifar_pyramid_Inr:
  assumes "load_cifar_pyramid X_train y_train X_test y_test items names = Inr out"
  shows "label_sets items = Inr (joint_set items, gate_set items,
            (\<Union>(c, fl) \<in> set items. py_set_of_str (fl ! 4)))"
    and "\<exists>st. train_loop X_train y_train names (joint_set items) (gate_set items)
            [0..<length X_train]
            \<lparr>acc_X_joint = [], acc_y_joint = [], acc_X_gate = [], acc_y_gate = [], acc_flags = []\<rparr> = Inr st
          \<and> X_train_joint out = acc_X_joint st \<and> y_train_joint out = acc_y_joint st
          \<and> X_train_gate out = acc_X_gate st \<and> y_train_gate out = acc_y_gate st
          \<and> fine_or_coarse_train_gate out = acc_flags st"
    and "test_loop y_test (joint_set items) [0..<length X_test] [] = Inr (fine_or_coarse_test out)"
    and "X_test_all out = X_test" and "y_test_all out = y_test"
proof -
  from assms obtain J G T where ls: "label_sets items = Inr (J, G, T)"
    by (auto simp: load_cifar_pyramid_def split: sum.splits)
  then have JG: "J = joint_set items" "G = gate_set items"
      "T = (\<Union>(c, fl) \<in> set items. py_set_of_str (fl ! 4))"
    using label_sets_loop_Inr [of items "{}" "{}" "{}" J G T] by (simp_all add: label_sets_def)
  with ls show "label_sets items = Inr (joint_set items, gate_set items,
            (\<Union>(c, fl) \<in> set items. py_set_of_str (fl ! 4)))" by simp
  from assms ls JG show "\<exists>st. train_loop X_train y_train names (joint_set items) (gate_set items)
            [0..<length X_train]
            \<lparr>acc_X_joint = [], acc_y_joint = [], acc_X_gate = [], acc_y_gate = [], acc_flags = []\<rparr> = Inr st
          \<and> X_train_joint out = acc_X_joint st \<and> y_train_joint out = acc_y_joint st
          \<and> X_train_gate out = acc_X_gate st \<and> y_train_gate out = acc_y_gate st
          \<and> fine_or_coarse_train_gate out = acc_flags st"
    by (auto simp: load_cifar_pyramid_def split: sum.splits)
  from assms ls JG show "test_loop y_test (joint_set items) [0..<length X_test] [] = Inr (fine_or_coarse_test out)"
    by (auto simp: load_cifar_pyramid_def split: sum.splits)
  from assms ls show "X_test_all out = X_test" "y_test_all out = y_test"
    by (auto simp: load_cifar_pyramid_def split: sum.splits)
qed

text \<open>The partitioner returns on every well-formed input: buckets of at least five names,
  a label row for every sample, and fine ids that index the name table.\<close>

lemma load_cifar_pyramid_total:
  assumes b: "\<forall>(c, fl) \<in> set items. 5 \<le> length fl"
    and ltr: "length X_train \<le> length y_train" and lte: "length X_test \<le> length y_test"
    and ids: "\<forall>i < length X_train. valid_id names (fst (y_train ! i))"
  shows "\<exists>out. load_cifar_pyramid X_train y_train X_test y_test items names = Inr out"
proof -
  from label_sets_loop_total [OF b] obtain r where "label_sets items = Inr r"
    unfolding label_sets_def by blast
  moreover obtain J G T where "r = (J, G, T)" by (cases r) auto
  ultimately have ls: "label_sets items = Inr (J, G, T)" by simp
  have "\<forall>i \<in> set [0..<length X_train]. i < length y_train \<and> valid_id names (fst (y_train ! i))"
    using ltr ids by auto
  from train_loop_total [OF this] obtain st where
    tl: "train_loop X_train y_train names J G [0..<length X_train]
           \<lparr>acc_X_joint = [], acc_y_joint = [], acc_X_gate = [], acc_y_gate = [], acc_flags = []\<rparr>
         = Inr st"
    by blast
  have "\<forall>i \<in> set [0..<length X_test]. i < length y_test" using lte by auto
  from test_loop_eq [OF this] obtain flags where
    te: "test_loop y_test J [0..<length X_test] [] = Inr flags"
    by blast
  show ?thesis by (simp add: load_cifar_pyramid_def ls tl te)
qed

lemma joint_set_strings: "PyInt k \<notin> joint_set items"
  by (auto simp: joint_set_def)

lemma test_flags_all_one:
  assumes "load_cifar_pyramid X_train y_train X_test y_test items names = Inr out"
  shows "fine_or_coarse_test out = replicate (length X_test) 1"
proof -
  from load_cifar_pyramid_Inr(3) [OF assms]
  have t: "test_loop y_test (joint_set items) [0..<length X_test] [] = Inr (fine_or_coarse_test out)" .
  from test_loop_Inr [OF t] test_loop_eq [of "[0..<length X_test]" y_test "joint_set items" "[]"] t
  have "fine_or_coarse_test out = map (\<lambda>i. 1) [0..<length X_test]"
    by (simp add: joint_set_strings)
  then show ?thesis by (simp add: map_replicate_const)
qed

lemma scenario_label_sets:
  "label_sets scenario_taxonomy =
     Inr (PyStr ` {''f0'', ''f1'', ''f5'', ''f6''},
          PyStr ` {''f0'', ''f1'', ''f2'', ''f3'', ''f5'', ''f6'', ''f7'', ''f8''},
          PyStr ` {''f'', ''4'', ''9''})"
  by (simp add: label_sets_def scenario_taxonomy_def py_index_def py_set_of_strs_def
        py_set_of_str_def) auto

text \<open>
  Claim C1.  The claim: the routing flag of a test sample is 0 when the name of its fine
  label is in the global joint set.  The loop over the test samples looks the integer id
  up in the set of names, so the flag is 1 for every sample.  Here the test sample has
  fine id 0, whose name \<open>f0\<close> is in the joint set of the two-bucket scenario, and its
  flag is 1.
\<close>

theorem test_flag_compares_id_with_names:
  "py_index scenario_names 0 = Inr ''f0''
   \<and> PyStr ''f0'' \<in> joint_set scenario_taxonomy
   \<and> map_sum id fine_or_coarse_test
       (load_cifar_pyramid ([] :: nat list) [] [0] [(0, 0)] scenario_taxonomy scenario_names)
     = Inr [1]"
proof (intro conjI)
  show "py_index scenario_names 0 = Inr ''f0''"
    by (simp add: py_index_def scenario_names_def)
  show "PyStr ''f0'' \<in> joint_set scenario_taxonomy"
    by (simp add: joint_set_def scenario_taxonomy_def)
  show "map_sum id fine_or_coarse_test
       (load_cifar_pyramid ([] :: nat list) [] [0] [(0, 0)] scenario_taxonomy scenario_names)
     = Inr [1]"
    by (simp add: load_cifar_pyramid_def scenario_label_sets np_row_def)
qed

text \<open>
  Claim C2.  The claim: the test-only set is the set of fifth names, \<open>{f4, f9}\<close> in the
  two-bucket scenario.  Line 218 builds \<^verbatim>\<open>set(fine_labels[4])\<close> from one string, which is
  the set of its characters: the scenario gives \<open>{f, 4, 9}\<close>, and \<open>f4\<close> is not in it.
\<close>

theorem test_only_set_holds_characters:
  "map_sum id (\<lambda>(J, G, T). T) (label_sets scenario_taxonomy) = Inr (PyStr ` {''f'', ''4'', ''9''})
   \<and> fifth_names scenario_taxonomy = PyStr ` {''f4'', ''f9''}
   \<and> PyStr ''f4'' \<notin> PyStr ` {''f'', ''4'', ''9''}"
proof (intro conjI)
  show "map_sum id (\<lambda>(J, G, T). T) (label_sets scenario_taxonomy) = Inr (PyStr ` {''f'', ''4'', ''9''})"
    by (simp add: scenario_label_sets)
  show "fifth_names scenario_taxonomy = PyStr ` {''f4'', ''f9''}"
    by (simp add: fifth_names_def scenario_taxonomy_def)
  show "PyStr ''f4'' \<notin> PyStr ` {''f'', ''4'', ''9''}"
    by simp
qed

text \<open>
  Claim C3.  A taxonomy with a bucket of fewer than five fine-label names makes the
  partitioning step raise IndexError, whatever the other inputs are: no output is
  produced, and no bucket is truncated or padded.
\<close>

theorem short_bucket_raises:
  assumes "(c, fl) \<in> set items" and "length fl < 5"
  shows "load_cifar_pyramid X_train y_train X_test y_test items names = Inl IndexError"
proof -
  from assms have "label_sets items = Inl IndexError"
    unfolding label_sets_def by (rule label_sets_loop_short)
  then show ?thesis by (simp add: load_cifar_pyramid_def)
qed

theorem short_bucket_raises_witness:
  "load_cifar_pyramid [10, 11 :: nat] [(0, 0), (5, 1)] [12] [(4, 0)]
     [(''c0'', [''f0'', ''f1'', ''f2'', ''f3'', ''f4'']), (''c1'', [''f5'', ''f6'', ''f7'', ''f8''])]
     scenario_names = Inl IndexError"
  using short_bucket_raises [of "''c1''" "[''f5'', ''f6'', ''f7'', ''f8'']"
      "[(''c0'', [''f0'', ''f1'', ''f2'', ''f3'', ''f4'']), (''c1'', [''f5'', ''f6'', ''f7'', ''f8''])]"
      "[10, 11 :: nat]" "[(0, 0), (5, 1)]" "[12]" "[(4, 0)]" scenario_names]
  by simp

text \<open>
  Claim C4.  When the partitioner returns, the gate-training images and label rows are the
  training samples whose fine-label name is in the global gate set, in scan order, and the
  flag at the same position is 0 when that name is in the global joint set and 1
  otherwise.
\<close>

theorem gate_training_filter:
  assumes "load_cifar_pyramid X_train y_train X_test y_test items names = Inr out"
  shows "X_train_gate out =
           map fst (filter (\<lambda>(x, row). name_in names (gate_set items) row) (zip X_train y_train))
       \<and> y_train_gate out =
           map snd (filter (\<lambda>(x, row). name_in names (gate_set items) row) (zip X_train y_train))
       \<and> fine_or_coarse_train_gate out =
           map (\<lambda>(x, row). if name_in names (joint_set items) row then 0 else 1)
             (filter (\<lambda>(x, row). name_in names (gate_set items) row) (zip X_train y_train))"
proof -
  let ?G = "\<lambda>row. name_in names (gate_set items) row"
  let ?is = "filter (\<lambda>i. ?G (y_train ! i)) [0..<length X_train]"
  from load_cifar_pyramid_Inr(2) [OF assms] obtain st where
    tl: "train_loop X_train y_train names (joint_set items) (gate_set items)
            [0..<length X_train]
            \<lparr>acc_X_joint = [], acc_y_joint = [], acc_X_gate = [], acc_y_gate = [], acc_flags = []\<rparr> = Inr st"
    and out: "X_train_gate out = acc_X_gate st" "y_train_gate out = acc_y_gate st"
          "fine_or_coarse_train_gate out = acc_flags st"
    by blast
  note r = train_loop_Inr [OF tl]
  from r have "\<forall>i < length X_train. i < length y_train" by simp
  then have len: "length X_train \<le> length y_train"
    by (metis le_refl linorder_not_le)
  have z: "map (\<lambda>i. (X_train ! i, y_train ! i)) ?is = filter (\<lambda>(x, row). ?G row) (zip X_train y_train)"
    by (rule filter_index_zip [OF len])
  have "X_train_gate out = map fst (map (\<lambda>i. (X_train ! i, y_train ! i)) ?is)"
    using r out by (simp add: comp_def)
  moreover have "y_train_gate out = map snd (map (\<lambda>i. (X_train ! i, y_train ! i)) ?is)"
    using r out by (simp add: comp_def)
  moreover have "fine_or_coarse_train_gate out =
      map (\<lambda>(x, row). if name_in names (joint_set items) row then 0 else 1)
        (map (\<lambda>i. (X_train ! i, y_train ! i)) ?is)"
    using r out by (simp add: comp_def)
  ultimately show ?thesis unfolding z by blast
qed

theorem gate_training_filter_witness:
  "\<exists>out. load_cifar_pyramid [10, 11, 12, 13 :: nat] [(1, 0), (2, 0), (4, 0), (5, 1)] [14] [(0, 0)]
       scenario_taxonomy scenario_names = Inr out
     \<and> X_train_gate out = [10, 11, 13] \<and> y_train_gate out = [(1, 0), (2, 0), (5, 1)]
     \<and> fine_or_coarse_train_gate out = [0, 1, 0]"
proof -
  have run: "load_cifar_pyramid [10, 11, 12, 13 :: nat] [(1, 0), (2, 0), (4, 0), (5, 1)] [14] [(0, 0)]
       scenario_taxonomy scenario_names =
     Inr \<lparr>X_train_joint = [10, 13], y_train_joint = [(1, 0), (5, 1)],
          X_train_gate = [10, 11, 13], y_train_gate = [(1, 0), (2, 0), (5, 1)],
          fine_or_coarse_train_gate = [0, 1, 0],
          X_test_all = [14], y_test_all = [(0, 0)], fine_or_coarse_test = [1]\<rparr>"
    by (simp add: load_cifar_pyramid_def scenario_label_sets np_row_def py_index_def
        scenario_names_def train_step_def)
  from gate_training_filter [OF run] run show ?thesis by simp
qed

section \<open>Properties of the normalizer\<close>

lemma exact_ops_simps:
  "f_round exact_ops x = x" "f_add exact_ops a b = a + b" "f_sub exact_ops a b = a - b"
  "f_mul exact_ops a b = a * b" "f_div exact_ops a b = a / b" "f_sqrt exact_ops x = sqrt x"
  "f_sum_flat exact_ops xs = sum_list xs" "f_sum_axis exact_ops xs = sum_list xs"
  by (simp_all add: exact_ops_def)

lemma np_take_range:
  assumes "0 \<le> a" "a \<le> b" "b \<le> int (length xs)"
  shows "np_take xs (py_range a b) = Inr (take (nat (b - a)) (drop (nat a) xs))"
proof -
  have ok: "\<forall>i \<in> set [a..b - 1]. - int (length xs) \<le> i \<and> i < int (length xs)"
    using assms by auto
  have "map (\<lambda>i. xs ! nat (if i < 0 then int (length xs) + i else i)) [a..b - 1]
          = take (nat (b - a)) (drop (nat a) xs)"
  proof (intro nth_equalityI)
    show "length (map (\<lambda>i. xs ! nat (if i < 0 then int (length xs) + i else i)) [a..b - 1])
            = length (take (nat (b - a)) (drop (nat a) xs))"
      using assms by auto
  next
    fix i assume "i < length (map (\<lambda>i. xs ! nat (if i < 0 then int (length xs) + i else i)) [a..b - 1])"
    then have i: "i < nat (b - a)" by simp
    then have "[a..b - 1] ! i = a + int i" by (simp add: nth_upto)
    with i assms show "map (\<lambda>i. xs ! nat (if i < 0 then int (length xs) + i else i)) [a..b - 1] ! i
            = take (nat (b - a)) (drop (nat a) xs) ! i"
      by (simp add: nat_add_distrib)
  qed
  with ok show ?thesis by (simp add: np_take_def py_range_def Let_def)
qed

lemma np_take_err: "np_take xs idxs = Inl e \<Longrightarrow> e = IndexError"
  by (auto simp: np_take_def Let_def split: if_splits)

lemma load_cifar_with_returns:
  assumes "0 \<le> num_training" "0 \<le> num_validation" "0 \<le> num_test"
    and "num_training + num_validation \<le> int (length X_train)"
    and "num_test \<le> int (length X_test)"
    and "length y_train = length X_train" "length y_test = length X_test"
  shows "returned (load_cifar_with ops eps X_train y_train X_test y_test num_training
            num_validation num_test True) =
     Inr \<lparr>cifar_X_train = transform ops (np_mean_all ops X_train)
                              (np_mean ops (np_std_axis0 ops X_train)) eps
                              (take (nat num_training) X_train),
          cifar_y_train = take (nat num_training) y_train,
          cifar_X_val = transform ops (np_mean_all ops X_train)
                              (np_mean ops (np_std_axis0 ops X_train)) eps
                              (take (nat num_validation) (drop (nat num_training) X_train)),
          cifar_y_val = take (nat num_validation) (drop (nat num_training) y_train),
          cifar_X_test = transform ops (np_mean_all ops X_train)
                              (np_mean ops (np_std_axis0 ops X_train)) eps
                              (take (nat num_test) X_test),
          cifar_y_test = take (nat num_test) y_test\<rparr>"
proof -
  have v: "np_take X_train (py_range num_training (num_training + num_validation))
             = Inr (take (nat num_validation) (drop (nat num_training) X_train))"
       "np_take y_train (py_range num_training (num_training + num_validation))
             = Inr (take (nat num_validation) (drop (nat num_training) y_train))"
    using assms by (simp_all add: np_take_range)
  have t: "np_take X_train (py_range 0 num_training) = Inr (take (nat num_training) X_train)"
       "np_take y_train (py_range 0 num_training) = Inr (take (nat num_training) y_train)"
    using assms by (simp_all add: np_take_range)
  have e: "np_take X_test (py_range 0 num_test) = Inr (take (nat num_test) X_test)"
       "np_take y_test (py_range 0 num_test) = Inr (take (nat num_test) y_test)"
    using assms by (simp_all add: np_take_range)
  have tr: "\<And>X m s. tensor_div ops (tensor_sub ops X m) (f_add ops s eps) = transform ops m s eps X"
    by (simp add: tensor_div_def tensor_sub_def transform_def comp_def)
  show ?thesis
    by (simp add: load_cifar_with_def Let_def v t e tr)
qed

lemma length_concat_rect:
  "\<forall>s \<in> set X. length s = d \<Longrightarrow> length (concat X) = length X * d"
  by (induction X) simp_all

lemma np_mean_all_spec:
  assumes "\<forall>s \<in> set X. length s = length (hd X)"
  shows "np_mean_all ops X = spec_mean ops X"
  using length_concat_rect [OF assms]
  by (simp add: np_mean_all_def np_mean_def spec_mean_def)

lemma np_std_column: "np_std ops (map (\<lambda>t. t ! j) X) = position_std ops X j"
  by (simp add: np_std_def position_std_def comp_def Let_def)

lemma np_std_axis0_spec:
  assumes "X \<noteq> []"
  shows "np_mean ops (np_std_axis0 ops X) = spec_scale ops X"
proof -
  from assms obtain s rest where X: "X = s # rest" by (cases X) auto
  have "np_std_axis0 ops X = map (position_std ops X) [0..<length (hd X)]"
    unfolding np_std_axis0_def X by (simp add: np_std_column [of _ _ "s # rest", simplified])
  then show ?thesis by (simp add: np_mean_def spec_scale_def)
qed

text \<open>In exact arithmetic, a tensor that is constant at every position has scale 0.\<close>

lemma sum_list_const: "\<forall>x \<in> set xs. x = c \<Longrightarrow> sum_list xs = real (length xs) * (c :: real)"
  by (induction xs) (simp_all add: algebra_simps)

lemma np_std_const:
  assumes "\<forall>x \<in> set xs. x = c" and "xs \<noteq> []"
  shows "np_std exact_ops xs = 0"
proof -
  from assms have m: "sum_list xs / real (length xs) = c" by (simp add: sum_list_const)
  have "sum_list (map (\<lambda>d. d * d) (map (\<lambda>a. a - c) xs)) = 0"
    using assms(1) by (induction xs) simp_all
  then show ?thesis by (simp add: np_std_def exact_ops_simps Let_def m)
qed

lemma constant_positions_scale_zero:
  assumes "X \<noteq> []" and "\<forall>j < length (hd X). \<forall>s \<in> set X. s ! j = hd X ! j"
  shows "np_mean exact_ops (np_std_axis0 exact_ops X) = 0"
proof -
  from assms(1) obtain s rest where X: "X = s # rest" by (cases X) auto
  have c: "np_std exact_ops (map (\<lambda>t. t ! j) X) = 0" if "j < length (hd X)" for j
  proof (rule np_std_const [of _ "hd X ! j"])
    show "\<forall>x \<in> set (map (\<lambda>t. t ! j) X). x = hd X ! j"
    proof
      fix x assume "x \<in> set (map (\<lambda>t. t ! j) X)"
      then obtain s where "s \<in> set X" "x = s ! j" by auto
      with assms(2) that show "x = hd X ! j" by blast
    qed
    show "map (\<lambda>t. t ! j) X \<noteq> []" using assms(1) by simp
  qed
  have "np_std_axis0 exact_ops X
          = map (\<lambda>j. np_std exact_ops (map (\<lambda>t. t ! j) X)) [0..<length (hd X)]"
    by (simp add: np_std_axis0_def X)
  also have "\<dots> = map (\<lambda>j. 0) [0..<length (hd X)]"
    by (rule map_cong) (simp_all add: c)
  finally show ?thesis by (simp add: np_mean_def exact_ops_simps)
qed

lemma EPSILON_positive: "0 < EPSILON exact_ops"
  by (simp add: EPSILON_def exact_ops_simps)

lemma range01: "py_range 0 1 = [0]" "py_range 1 2 = [1]"
  by (simp_all add: py_range_def upto.simps)

lemma example_stats:
  "spec_mean exact_ops [[0, 0], [2, 0]] = 1 / 2" "spec_scale exact_ops [[0, 0], [2, 0]] = 1 / 2"
  by (simp_all add: spec_mean_def spec_scale_def position_std_def exact_ops_simps
        upt_rec [of 0 2] upt_rec [of 1 2])

lemma example_flat_std: "flat_std exact_ops [[0, 0], [2, 0]] \<noteq> 1 / 2"
proof
  assume "flat_std exact_ops [[0, 0], [2, 0]] = 1 / 2"
  then have e: "sqrt (3 / 4) = 1 / 2"
    by (simp add: flat_std_def spec_mean_def exact_ops_simps)
  have "(sqrt (3 / 4 :: real))\<^sup>2 = 3 / 4" by simp
  then show False unfolding e by (simp add: power2_eq_square)
qed

text \<open>
  Claim C5, as stated: two runs with equal training splits have equal statistics whatever
  their validation tensors hold.  The statistics are taken on the raw training array
  before the validation samples are cut out of it: here both runs have the training split
  \<open>[[0]]\<close> and the same test tensor, the validation sample is \<open>[2]\<close> in one and \<open>[4]\<close> in the
  other, and the means are 1 and 2.
\<close>

theorem validation_samples_enter_statistics:
  "np_take [[0], [2 :: real]] (py_range 0 1) = Inr [[0]]
   \<and> np_take [[0], [4 :: real]] (py_range 0 1) = Inr [[0]]
   \<and> fst (printed (load_cifar exact_ops [[0], [2]] [0, 1 :: nat] [[1]] [2] 1 1 1 True)) = 1
   \<and> fst (printed (load_cifar exact_ops [[0], [4]] [0, 1 :: nat] [[1]] [2] 1 1 1 True)) = 2"
  by (simp add: range01 np_take_def load_cifar_def load_cifar_with_def np_mean_all_def np_mean_def
        Let_def exact_ops_simps)

text \<open>
  Claim C5, amended: the two printed statistics are a function of the raw training array
  as loaded, before subsampling; the test tensor, the labels, the subset sizes, the
  stabilisation constant and the normalisation switch do not enter them.
\<close>

theorem statistics_from_raw_training_tensor:
  "printed (load_cifar_with ops eps X_train y_train X_test y_test num_training num_validation
              num_test normalize_flag)
     = printed (load_cifar_with ops eps' X_train y_train' X_test' y_test' num_training'
              num_validation' num_test' normalize_flag')"
  by (simp add: load_cifar_with_def Let_def)

text \<open>
  Claim C8, as stated: the two scalars are the statistics of the training tensor to which
  the transform is then applied.  The normalised training tensor is the first
  \<open>num_training\<close> samples, and the statistics are those of the whole array as loaded: here
  the training split is \<open>[[0, 0]]\<close>, whose mean and scale are both 0, and the run prints the
  mean 1/2 and the scale 1/2.
\<close>

theorem statistics_of_training_split_differ:
  "np_take [[0, 0], [2, 0 :: real]] (py_range 0 1) = Inr [[0, 0]]
   \<and> spec_mean exact_ops [[0, 0]] = 0 \<and> spec_scale exact_ops [[0, 0]] = 0
   \<and> printed (load_cifar exact_ops [[0, 0], [2, 0]] [7, 8 :: nat] [[1, 1]] [9] 1 1 1 True)
       = (1 / 2, 1 / 2)"
proof (intro conjI)
  show "np_take [[0, 0], [2, 0 :: real]] (py_range 0 1) = Inr [[0, 0]]"
    by (simp add: range01 np_take_def)
  show "spec_mean exact_ops [[0, 0]] = 0"
    by (simp add: spec_mean_def exact_ops_simps)
  show "spec_scale exact_ops [[0, 0]] = 0"
    by (simp add: spec_scale_def position_std_def exact_ops_simps upt_rec [of 0 2] upt_rec [of 1 2])
  have "np_mean_all exact_ops [[0, 0], [2, 0]] = spec_mean exact_ops [[0, 0], [2, 0]]"
    by (rule np_mean_all_spec) simp
  moreover have "np_mean exact_ops (np_std_axis0 exact_ops [[0, 0], [2, 0]])
      = spec_scale exact_ops [[0, 0], [2, 0]]"
    by (rule np_std_axis0_spec) simp
  ultimately show "printed (load_cifar exact_ops [[0, 0], [2, 0]] [7, 8 :: nat] [[1, 1]] [9] 1 1 1 True)
       = (1 / 2, 1 / 2)"
    by (simp add: load_cifar_def load_cifar_with_def Let_def example_stats)
qed

text \<open>
  Claim C8, amended.  On a non-empty rectangular training array as loaded, the mean is
  the sum of all its entries divided by their number, the scale is the mean over the
  positions of the standard deviation taken along the sample axis of that same array, and
  the returned training, validation and test tensors are the subsampled tensors under
  \<open>(x - mean) / (scale + EPSILON)\<close> with these two scalars, in whatever arithmetic the
  operations are carried out.  The witness also shows a tensor where the scale differs from
  the standard deviation of the flattened tensor.
\<close>

theorem normalizer_statistics_and_transform:
  assumes "X_train \<noteq> []" and "hd X_train \<noteq> []"
    and "\<forall>s \<in> set X_train. length s = length (hd X_train)"
    and "0 \<le> num_training" "0 \<le> num_validation" "0 \<le> num_test"
    and "num_training + num_validation \<le> int (length X_train)"
    and "num_test \<le> int (length X_test)"
    and "length y_train = length X_train" "length y_test = length X_test"
  shows "printed (load_cifar ops X_train y_train X_test y_test num_training num_validation
                    num_test True)
           = (spec_mean ops X_train, spec_scale ops X_train)
     \<and> returned (load_cifar ops X_train y_train X_test y_test num_training num_validation
                    num_test True)
           = Inr \<lparr>cifar_X_train = transform ops (spec_mean ops X_train) (spec_scale ops X_train)
                                      (EPSILON ops) (take (nat num_training) X_train),
                  cifar_y_train = take (nat num_training) y_train,
                  cifar_X_val = transform ops (spec_mean ops X_train) (spec_scale ops X_train)
                                      (EPSILON ops)
                                      (take (nat num_validation) (drop (nat num_training) X_train)),
                  cifar_y_val = take (nat num_validation) (drop (nat num_training) y_train),
                  cifar_X_test = transform ops (spec_mean ops X_train) (spec_scale ops X_train)
                                      (EPSILON ops) (take (nat num_test) X_test),
                  cifar_y_test = take (nat num_test) y_test\<rparr>"
proof -
  have m: "np_mean_all ops X_train = spec_mean ops X_train"
    using assms(3) by (rule np_mean_all_spec)
  have s: "np_mean ops (np_std_axis0 ops X_train) = spec_scale ops X_train"
    using assms(1) by (rule np_std_axis0_spec)
  have p: "printed (load_cifar ops X_train y_train X_test y_test num_training num_validation
                      num_test True)
           = (spec_mean ops X_train, spec_scale ops X_train)"
    by (simp add: load_cifar_def load_cifar_with_def Let_def m s)
  from load_cifar_with_returns [OF assms(4-10), of ops "EPSILON ops"] p show ?thesis
    by (simp add: load_cifar_def m s)
qed

theorem normalizer_statistics_and_transform_witness:
  "printed (load_cifar exact_ops [[0, 0], [2, 0]] [7, 8 :: nat] [[1, 1]] [9] 1 1 1 True)
      = (1 / 2, 1 / 2)
   \<and> returned (load_cifar exact_ops [[0, 0], [2, 0]] [7, 8 :: nat] [[1, 1]] [9] 1 1 1 True)
       = Inr \<lparr>cifar_X_train = [[(0 - 1 / 2) / (1 / 2 + 1 / 10 ^ 8), (0 - 1 / 2) / (1 / 2 + 1 / 10 ^ 8)]],
              cifar_y_train = [7],
              cifar_X_val = [[(2 - 1 / 2) / (1 / 2 + 1 / 10 ^ 8), (0 - 1 / 2) / (1 / 2 + 1 / 10 ^ 8)]],
              cifar_y_val = [8],
              cifar_X_test = [[(1 - 1 / 2) / (1 / 2 + 1 / 10 ^ 8), (1 - 1 / 2) / (1 / 2 + 1 / 10 ^ 8)]],
              cifar_y_test = [9]\<rparr>
   \<and> flat_std exact_ops [[0, 0], [2, 0]] \<noteq> 1 / 2"
  using normalizer_statistics_and_transform
          [of "[[0, 0], [2, 0]]" 1 1 1 "[[1, 1]]" "[7, 8 :: nat]" "[9]" exact_ops]
        example_flat_std
  by (simp add: example_stats transform_def exact_ops_simps EPSILON_def)

text \<open>
  Claim C9, as stated: a training tensor with zero variance at every position has scale 0
  and is normalised to \<open>(x - mean) / \<epsilon>\<close>.  The scale is that of the whole array as loaded:
  here the training split \<open>[[3]]\<close> is constant, its own mean is 3 and its own scale 0, the
  run prints the scale 1, and with \<open>\<epsilon> = 1/4\<close> the normalised entry is \<open>-4/5\<close>, not
  \<open>(3 - 3) / \<epsilon>\<close>.
\<close>

theorem constant_training_split_nonzero_scale:
  "np_take [[3], [5 :: real]] (py_range 0 1) = Inr [[3]]
   \<and> spec_scale exact_ops [[3]] = 0 \<and> spec_mean exact_ops [[3]] = 3
   \<and> printed (load_cifar_with exact_ops (1 / 4) [[3], [5]] [7, 8 :: nat] [[1]] [9] 1 1 1 True)
       = (4, 1)
   \<and> map_sum id cifar_X_train
        (returned (load_cifar_with exact_ops (1 / 4) [[3], [5]] [7, 8 :: nat] [[1]] [9] 1 1 1 True))
       = Inr [[- (4 / 5)]]
   \<and> (3 - 3) / (1 / 4) \<noteq> (- (4 / 5) :: real)"
proof (intro conjI)
  show "np_take [[3], [5 :: real]] (py_range 0 1) = Inr [[3]]"
    by (simp add: range01 np_take_def)
  show "spec_scale exact_ops [[3]] = 0"
    by (simp add: spec_scale_def position_std_def exact_ops_simps)
  show "spec_mean exact_ops [[3]] = 3"
    by (simp add: spec_mean_def exact_ops_simps)
  have p: "np_mean_all exact_ops [[3], [5]] = 4" "np_mean exact_ops (np_std_axis0 exact_ops [[3], [5]]) = 1"
    by (simp_all add: np_mean_all_def np_mean_def np_std_axis0_def np_std_def exact_ops_simps Let_def)
  show "printed (load_cifar_with exact_ops (1 / 4) [[3], [5]] [7, 8 :: nat] [[1]] [9] 1 1 1 True)
       = (4, 1)"
    by (simp add: load_cifar_with_def Let_def p)
  show "map_sum id cifar_X_train
        (returned (load_cifar_with exact_ops (1 / 4) [[3], [5]] [7, 8 :: nat] [[1]] [9] 1 1 1 True))
       = Inr [[- (4 / 5)]]"
    by (simp add: load_cifar_with_def Let_def p range01 np_take_def tensor_div_def tensor_sub_def
          exact_ops_simps)
  show "(3 - 3) / (1 / 4) \<noteq> (- (4 / 5) :: real)" by simp
qed

text \<open>
  Claim C9, amended.  When the scale computed from the training array as loaded is 0,
  then for every positive \<open>eps\<close> (adding it to 0 being exact, as it is for float64) the
  divisor \<open>scale + eps\<close> is \<open>eps\<close>, which is not zero, and every returned entry is
  \<open>(x - mean) / eps\<close>, where the mean is that of all entries of the array as loaded.  In
  exact arithmetic the scale is 0 whenever every position is constant over the loaded
  samples (\<open>constant_positions_scale_zero\<close>), which is how the witness meets the hypothesis.
\<close>

theorem zero_scale_divides_by_eps:
  assumes "0 < eps" and "f_add ops 0 eps = eps"
    and "snd (printed (load_cifar_with ops eps X_train y_train X_test y_test num_training
                  num_validation num_test True)) = 0"
    and "X_train \<noteq> []" and "hd X_train \<noteq> []"
    and "\<forall>s \<in> set X_train. length s = length (hd X_train)"
    and "0 \<le> num_training" "0 \<le> num_validation" "0 \<le> num_test"
    and "num_training + num_validation \<le> int (length X_train)"
    and "num_test \<le> int (length X_test)"
    and "length y_train = length X_train" "length y_test = length X_test"
  shows "spec_scale ops X_train = 0
     \<and> f_add ops (spec_scale ops X_train) eps = eps \<and> eps \<noteq> 0
     \<and> returned (load_cifar_with ops eps X_train y_train X_test y_test num_training
                  num_validation num_test True)
         = Inr \<lparr>cifar_X_train = map (map (\<lambda>x. f_div ops (f_sub ops x (spec_mean ops X_train)) eps))
                                    (take (nat num_training) X_train),
                cifar_y_train = take (nat num_training) y_train,
                cifar_X_val = map (map (\<lambda>x. f_div ops (f_sub ops x (spec_mean ops X_train)) eps))
                                    (take (nat num_validation) (drop (nat num_training) X_train)),
                cifar_y_val = take (nat num_validation) (drop (nat num_training) y_train),
                cifar_X_test = map (map (\<lambda>x. f_div ops (f_sub ops x (spec_mean ops X_train)) eps))
                                    (take (nat num_test) X_test),
                cifar_y_test = take (nat num_test) y_test\<rparr>"
proof -
  have m: "np_mean_all ops X_train = spec_mean ops X_train"
    using assms(6) by (rule np_mean_all_spec)
  have s: "np_mean ops (np_std_axis0 ops X_train) = spec_scale ops X_train"
    using assms(4) by (rule np_std_axis0_spec)
  from assms(3) have z: "spec_scale ops X_train = 0"
    by (simp add: load_cifar_with_def Let_def s)
  from load_cifar_with_returns [OF assms(7-13), of ops eps] assms(1,2) show ?thesis
    by (simp add: m s z transform_def)
qed

theorem zero_scale_divides_by_eps_witness:
  "snd (printed (load_cifar_with exact_ops (1 / 4) [[3, 3], [3, 3]] [7, 8 :: nat] [[5, 7]] [9]
            1 1 1 True)) = 0
   \<and> returned (load_cifar_with exact_ops (1 / 4) [[3, 3], [3, 3]] [7, 8 :: nat] [[5, 7]] [9]
            1 1 1 True)
       = Inr \<lparr>cifar_X_train = [[0, 0]], cifar_y_train = [7],
              cifar_X_val = [[0, 0]], cifar_y_val = [8],
              cifar_X_test = [[8, 16]], cifar_y_test = [9]\<rparr>"
proof -
  have c: "\<forall>j < length (hd [[3, 3], [3, 3 :: real]]).
             \<forall>s \<in> set [[3, 3], [3, 3]]. s ! j = hd [[3, 3], [3, 3]] ! j"
    by simp
  have z: "snd (printed (load_cifar_with exact_ops (1 / 4) [[3, 3], [3, 3]] [7, 8 :: nat]
            [[5, 7]] [9] 1 1 1 True)) = 0"
    using constant_positions_scale_zero [OF _ c] by (simp add: load_cifar_with_def Let_def)
  have m: "spec_mean exact_ops [[3, 3], [3, 3]] = 3"
    by (simp add: spec_mean_def exact_ops_simps)
  have a: "f_add exact_ops 0 (1 / 4) = 1 / 4" by (simp add: exact_ops_simps)
  have e: "(0 :: real) < 1 / 4" by simp
  from zero_scale_divides_by_eps [OF e a z] z
  show ?thesis by (simp add: m exact_ops_simps)
qed

section \<open>Properties of the taxonomy builder, the cache and the loader\<close>

lemma builder_step_valid:
  assumes "py_index cn (snd row) = Inr c" "py_index fn (fst row) = Inr f"
  shows "builder_step fn cn row m = Inr (m(c \<mapsto> insert f (bucket_of m c)))"
  using assms by (auto simp: builder_step_def bucket_of_def Let_def insert_absorb)

lemma builder_step_invalid:
  "\<not> valid_row fn cn row \<Longrightarrow> builder_step fn cn row m = Inl IndexError"
  using py_index_Inr_iff [of cn "snd row"] py_index_Inr_iff [of fn "fst row"]
  by (auto simp: builder_step_def valid_row_def split: sum.splits dest: py_index_err)

lemma observed_Cons:
  assumes "py_index cn (snd row) = Inr c" "py_index fn (fst row) = Inr f"
  shows "observed fn cn (row # rest) c' =
           (if c' = c then insert f (observed fn cn rest c') else observed fn cn rest c')"
  using assms by (auto simp: observed_def)

lemma builder_loop_closed:
  "builder_loop fn cn rows m =
     (if \<forall>row \<in> set rows. valid_row fn cn row
      then Inr (\<lambda>c. if observed fn cn rows c = {} then m c
                     else Some (bucket_of m c \<union> observed fn cn rows c))
      else Inl IndexError)"
proof (induction rows arbitrary: m)
  case Nil
  show ?case by (simp add: observed_def)
next
  case (Cons row rest)
  show ?case
  proof (cases "valid_row fn cn row")
    case False
    then show ?thesis by (simp add: builder_step_invalid)
  next
    case True
    then obtain c f where c: "py_index cn (snd row) = Inr c" and f: "py_index fn (fst row) = Inr f"
      using py_index_Inr_iff [of cn "snd row"] py_index_Inr_iff [of fn "fst row"]
      by (auto simp: valid_row_def)
    let ?m1 = "m(c \<mapsto> insert f (bucket_of m c))"
    have step: "builder_step fn cn row m = Inr ?m1" using c f by (rule builder_step_valid)
    have eq: "(\<lambda>c'. if observed fn cn rest c' = {} then ?m1 c'
                     else Some (bucket_of ?m1 c' \<union> observed fn cn rest c'))
            = (\<lambda>c'. if observed fn cn (row # rest) c' = {} then m c'
                     else Some (bucket_of m c' \<union> observed fn cn (row # rest) c'))"
      by (rule ext) (auto simp: observed_Cons [OF c f] bucket_of_def)
    show ?thesis
      using True by (simp add: step Cons.IH [of ?m1] eq)
  qed
qed

lemma finite_observed: "finite (observed fn cn y c)"
proof -
  have "observed fn cn y c \<subseteq> (\<lambda>row. projr (py_index fn (fst row))) ` set y"
    by (force simp: observed_def)
  then show ?thesis by (rule finite_subset) simp
qed

lemma create_closed:
  "fst (create_coarse_to_fine_map dumps y fn cn fs) =
     (if \<forall>row \<in> set y. valid_row fn cn row
      then Inr (\<lambda>c. if observed fn cn y c = {} then None
                     else Some (sorted_list_of_set (observed fn cn y c)))
      else Inl IndexError)"
  by (auto simp: create_coarse_to_fine_map_def builder_loop_closed sort_buckets_def Let_def
        bucket_of_def)

lemma create_set_only:
  assumes "set y' = set y"
  shows "create_coarse_to_fine_map dumps y' fn cn fs = create_coarse_to_fine_map dumps y fn cn fs"
proof -
  have h: "observed fn cn y' = observed fn cn y"
    using assms by (simp add: observed_def fun_eq_iff)
  show ?thesis
    unfolding create_coarse_to_fine_map_def builder_loop_closed h assms by (rule refl)
qed

lemma example_rows_valid:
  "\<forall>row \<in> set example_rows. valid_row example_fine_names example_coarse_names row"
  by (simp add: example_rows_def example_fine_names_def example_coarse_names_def valid_row_def
        valid_id_def)

lemma example_observed:
  "observed example_fine_names example_coarse_names example_rows ''fruit'' = {''pear'', ''apple''}"
  "observed example_fine_names example_coarse_names example_rows ''other'' = {''plum''}"
  "observed example_fine_names example_coarse_names example_rows ''trees'' = {}"
  by (auto simp: observed_def example_rows_def example_fine_names_def example_coarse_names_def
        py_index_def)

subsection \<open>The round trip through the cache\<close>

text \<open>Running the unpickler on what the pickler wrote for a list, for the entries of a
  dictionary and for a whole taxonomy.\<close>

lemma unpickle_appends:
  "\<exists>memo'. unpickle (save_appends n names @ rest) (OList xs # stack) memo
              = unpickle rest (OList (xs @ map OStr names) # stack) memo'"
proof (induction names arbitrary: n xs memo)
  case Nil
  show ?case by auto
next
  case (Cons s names)
  obtain memo' where h: "unpickle (save_appends (Suc n) names @ rest)
        (OList (xs @ [OStr s]) # stack) (memo(n \<mapsto> OStr s))
      = unpickle rest (OList ((xs @ [OStr s]) @ map OStr names) # stack) memo'"
    using Cons by blast
  have "unpickle (save_appends n (s # names) @ rest) (OList xs # stack) memo
      = unpickle rest (OList (xs @ map OStr (s # names)) # stack) memo'"
    using h by simp
  then show ?case by blast
qed

lemma unpickle_list:
  "\<exists>memo'. unpickle (save_list n names @ rest) stack memo
              = unpickle rest (enc_list names # stack) memo'"
  using unpickle_appends [of "Suc n" names rest "[]" stack "memo(n \<mapsto> OList [])"]
  by (simp add: save_list_def enc_list_def)

lemma unpickle_setitems:
  "\<exists>memo'. unpickle (save_setitems n items @ rest) (ODefaultdict factory entries # stack) memo
              = unpickle rest (ODefaultdict factory (set_all items entries) # stack) memo'"
proof (induction items arbitrary: n entries memo)
  case Nil
  show ?case by (auto simp: set_all_def)
next
  case (Cons item items)
  obtain k v where item: "item = (k, v)" by (cases item)
  obtain memo1 where l: "unpickle (save_list (Suc n) v @ (SETITEM # save_setitems (n + 2 + length v) items @ rest))
        (OStr k # ODefaultdict factory entries # stack) (memo(n \<mapsto> OStr k))
      = unpickle (SETITEM # save_setitems (n + 2 + length v) items @ rest)
          (enc_list v # OStr k # ODefaultdict factory entries # stack) memo1"
    using unpickle_list by blast
  from Cons [of "n + 2 + length v" "dict_setitem entries (OStr k) (enc_list v)" memo1]
  obtain memo2 where r: "unpickle (save_setitems (n + 2 + length v) items @ rest)
        (ODefaultdict factory (dict_setitem entries (OStr k) (enc_list v)) # stack) memo1
      = unpickle rest (ODefaultdict factory
          (set_all items (dict_setitem entries (OStr k) (enc_list v))) # stack) memo2"
    by blast
  have "unpickle (save_setitems n (item # items) @ rest) (ODefaultdict factory entries # stack) memo
      = unpickle rest (ODefaultdict factory (set_all (item # items) entries) # stack) memo2"
    using l r by (simp add: item set_all_def)
  then show ?case by blast
qed

lemma unpickle_dumps:
  "unpickle (pickle_dumps keys T) [] Map.empty
     = Some (ODefaultdict (OGlobal ''__builtin__'' ''set'') (set_all (dict_items keys T) []))"
proof -
  obtain memo' where "unpickle (save_setitems 4 (dict_items keys T) @ [STOP])
      [ODefaultdict (OGlobal ''__builtin__'' ''set'') []]
      [0 \<mapsto> OGlobal ''collections'' ''defaultdict'', 1 \<mapsto> OGlobal ''__builtin__'' ''set'',
       2 \<mapsto> OTuple [OGlobal ''__builtin__'' ''set''],
       3 \<mapsto> ODefaultdict (OGlobal ''__builtin__'' ''set'') []]
    = unpickle [STOP] [ODefaultdict (OGlobal ''__builtin__'' ''set'')
        (set_all (dict_items keys T) [])] memo'"
    using unpickle_setitems by blast
  then show ?thesis by (simp add: pickle_dumps_def)
qed

lemma map_of_dict_setitem: "map_of (dict_setitem entries k v) = (map_of entries)(k \<mapsto> v)"
  by (induction entries) (auto simp: fun_eq_iff)

lemma set_dict_setitem: "set (dict_setitem entries k v) \<subseteq> insert (k, v) (set entries)"
  by (induction entries) (auto split: if_splits)

lemma set_all_entries:
  "(k, v) \<in> set (set_all items entries) \<Longrightarrow>
     (k, v) \<in> set entries \<or> (\<exists>(c, names) \<in> set items. k = OStr c \<and> v = enc_list names)"
proof (induction items arbitrary: entries)
  case Nil
  then show ?case by (simp add: set_all_def)
next
  case (Cons item items)
  obtain c names where item: "item = (c, names)" by (cases item)
  from Cons.prems have "(k, v) \<in> set (set_all items (dict_setitem entries (OStr c) (enc_list names)))"
    by (simp add: set_all_def item)
  from Cons.IH [OF this] set_dict_setitem [of entries "OStr c" "enc_list names"]
  show ?case by (auto simp: item)
qed

lemma map_of_set_all:
  "map_of (set_all items entries) (OStr c)
     = (case map_of (rev items) c of
          None \<Rightarrow> map_of entries (OStr c)
        | Some names \<Rightarrow> Some (enc_list names))"
proof (induction items arbitrary: entries)
  case Nil
  show ?case by (simp add: set_all_def)
next
  case (Cons item items)
  obtain c' names where item: "item = (c', names)" by (cases item)
  have "map_of (set_all (item # items) entries) (OStr c)
          = map_of (set_all items (dict_setitem entries (OStr c') (enc_list names))) (OStr c)"
    by (simp add: set_all_def item)
  also have "\<dots> = (case map_of (rev items) c of
          None \<Rightarrow> map_of (dict_setitem entries (OStr c') (enc_list names)) (OStr c)
        | Some names \<Rightarrow> Some (enc_list names))"
    by (rule Cons.IH)
  finally show ?case
    by (auto simp: item map_of_dict_setitem map_add_def split: option.splits)
qed

lemma strs_of_enc_list: "strs_of (enc_list names) = Some names"
  by (induction names) (simp_all add: enc_list_def)

lemma map_of_rev_dict_items:
  "map_of (rev (dict_items keys T)) c = (if c \<in> set keys then T c else None)"
proof (induction keys)
  case Nil
  show ?case by (simp add: dict_items_def)
next
  case (Cons k keys)
  have d: "dict_items (k # keys) T = (case T k of None \<Rightarrow> [] | Some v \<Rightarrow> [(k, v)]) @ dict_items keys T"
    by (simp add: dict_items_def)
  show ?case
    using Cons by (auto simp: d map_add_def split: option.splits)
qed

lemma pickle_round_trip:
  assumes "dom T = set keys"
  shows "pickle_loads (pickle_dumps keys T) = Some T"
proof -
  let ?entries = "set_all (dict_items keys T) []"
  have typed: "\<forall>(k, v) \<in> set ?entries. str_of k \<noteq> None \<and> strs_of v \<noteq> None"
  proof (clarify, intro conjI)
    fix k v assume "(k, v) \<in> set ?entries"
    from set_all_entries [OF this] obtain c names where kv: "k = OStr c" "v = enc_list names"
      by auto
    show "str_of k \<noteq> None" by (simp add: kv)
    show "strs_of v \<noteq> None" by (simp add: kv strs_of_enc_list)
  qed
  have "(case map_of ?entries (OStr c) of None \<Rightarrow> None | Some v \<Rightarrow> strs_of v) = T c" for c
  proof (cases "T c")
    case None
    with assms have "c \<notin> set keys" by auto
    then show ?thesis by (simp add: map_of_set_all map_of_rev_dict_items None)
  next
    case (Some names)
    with assms have "c \<in> set keys" by auto
    then show ?thesis by (simp add: map_of_set_all map_of_rev_dict_items Some strs_of_enc_list)
  qed
  then have "(\<lambda>c. case map_of ?entries (OStr c) of None \<Rightarrow> None | Some v \<Rightarrow> strs_of v) = T"
    by (rule ext)
  with typed show ?thesis
    by (simp add: pickle_loads_def unpickle_dumps)
qed

lemma pickle_dumps_example:
  "pickle_dumps [''other''] [''other'' \<mapsto> [''plum'', ''yam'']] =
     [GLOBAL ''collections'' ''defaultdict'', PUT 0,
      MARK, GLOBAL ''__builtin__'' ''set'', PUT 1, TUPLE, PUT 2,
      REDUCE, PUT 3,
      STRING ''other'', PUT 4,
      MARK, LIST, PUT 5,
      STRING ''plum'', PUT 6, APPEND,
      STRING ''yam'', PUT 7, APPEND,
      SETITEM,
      STOP]"
  by (simp add: pickle_dumps_def dict_items_def save_list_def)

lemma example_dom:
  "(observed example_fine_names example_coarse_names example_rows c \<noteq> {})
     \<longleftrightarrow> c \<in> set [''other'', ''fruit'']"
  by (auto simp: observed_def example_rows_def example_fine_names_def example_coarse_names_def
        py_index_def)

text \<open>
  Claim C6.  For every taxonomy \<open>T\<close> with finitely many keys, in whatever order \<open>keys\<close> the
  dictionary yields them, loading the cache after saving \<open>T\<close> returns \<open>T\<close> itself: the same
  keys and the same sequences in the same order; and the file that
  \<^verbatim>\<open>create_coarse_to_fine_map\<close> leaves behind loads as the taxonomy it returned.
\<close>

theorem taxonomy_round_trip:
  "dom T = set keys \<Longrightarrow>
     load_coarse_to_fine_map pickle_loads
        (pickle_dump (pickle_dumps keys) T ''coarse_to_fine_map.pickle'' fs) = Inr T
     \<and> (create_coarse_to_fine_map (pickle_dumps keys) y_train fine_label_names
            coarse_label_names fs = (Inr T, fs')
          \<longrightarrow> load_coarse_to_fine_map pickle_loads fs' = Inr T)"
  using pickle_round_trip [of T keys]
  by (auto simp: load_coarse_to_fine_map_def pickle_load_def pickle_dump_def
        create_coarse_to_fine_map_def Let_def split: sum.splits)

theorem taxonomy_round_trip_witness:
  "\<exists>T fs'. create_coarse_to_fine_map (pickle_dumps [''other'', ''fruit'']) example_rows
               example_fine_names example_coarse_names Map.empty = (Inr T, fs')
       \<and> load_coarse_to_fine_map pickle_loads fs' = Inr T
       \<and> load_coarse_to_fine_map pickle_loads
            (pickle_dump (pickle_dumps [''other'', ''fruit'']) T ''coarse_to_fine_map.pickle''
               Map.empty)
          = Inr T"
proof -
  define T where "T = (\<lambda>c. if observed example_fine_names example_coarse_names example_rows c = {}
      then None
      else Some (sorted_list_of_set (observed example_fine_names example_coarse_names example_rows c)))"
  have run: "fst (create_coarse_to_fine_map (pickle_dumps [''other'', ''fruit'']) example_rows
      example_fine_names example_coarse_names Map.empty) = Inr T"
    using example_rows_valid by (simp add: create_closed T_def)
  then obtain fs' where c: "create_coarse_to_fine_map (pickle_dumps [''other'', ''fruit''])
      example_rows example_fine_names example_coarse_names Map.empty = (Inr T, fs')"
    by (cases "create_coarse_to_fine_map (pickle_dumps [''other'', ''fruit'']) example_rows
      example_fine_names example_coarse_names (Map.empty :: opcode list file_system)") simp
  have d: "dom T = set [''other'', ''fruit'']"
    using example_dom by (auto simp: T_def dom_def split: if_splits)
  from taxonomy_round_trip [where T = T and keys = "[''other'', ''fruit'']" and fs = Map.empty
      and y_train = example_rows and fine_label_names = example_fine_names
      and coarse_label_names = example_coarse_names and fs' = fs', OF d] c
  show ?thesis by blast
qed

text \<open>
  Claim C7.  When the builder returns a taxonomy, every coarse-label name observed in the
  corpus is mapped to the sorted sequence, without repetition, of exactly the fine-label
  names observed under it, and no other key is present; a permutation of the corpus gives
  the same result (and the same file).
\<close>

theorem taxonomy_sorted_and_order_independent:
  "(fst (create_coarse_to_fine_map dumps y_train fine_label_names coarse_label_names fs) = Inr T
      \<longrightarrow> (\<forall>c. case T c of
                 None \<Rightarrow> observed fine_label_names coarse_label_names y_train c = {}
               | Some names \<Rightarrow>
                   sorted names \<and> distinct names
                   \<and> set names = observed fine_label_names coarse_label_names y_train c
                   \<and> names \<noteq> []))
   \<and> (mset y_train' = mset y_train
      \<longrightarrow> create_coarse_to_fine_map dumps y_train' fine_label_names coarse_label_names fs
          = create_coarse_to_fine_map dumps y_train fine_label_names coarse_label_names fs)"
proof (intro conjI impI allI)
  fix c
  assume "fst (create_coarse_to_fine_map dumps y_train fine_label_names coarse_label_names fs) = Inr T"
  then have T: "T = (\<lambda>c. if observed fine_label_names coarse_label_names y_train c = {} then None
                     else Some (sorted_list_of_set (observed fine_label_names coarse_label_names y_train c)))"
    by (simp add: create_closed split: if_splits)
  show "case T c of
          None \<Rightarrow> observed fine_label_names coarse_label_names y_train c = {}
        | Some names \<Rightarrow>
            sorted names \<and> distinct names
            \<and> set names = observed fine_label_names coarse_label_names y_train c
            \<and> names \<noteq> []"
    using finite_observed [of fine_label_names coarse_label_names y_train c]
    by (auto simp: T)
next
  assume "mset y_train' = mset y_train"
  then have "set y_train' = set y_train" by (rule mset_eq_setD)
  then show "create_coarse_to_fine_map dumps y_train' fine_label_names coarse_label_names fs
          = create_coarse_to_fine_map dumps y_train fine_label_names coarse_label_names fs"
    by (rule create_set_only)
qed

theorem taxonomy_sorted_and_order_independent_witness:
  "\<exists>T. fst (create_coarse_to_fine_map id example_rows example_fine_names example_coarse_names
              Map.empty) = Inr T
       \<and> T ''fruit'' = Some [''apple'', ''pear''] \<and> T ''other'' = Some [''plum'']
       \<and> T ''trees'' = None
       \<and> create_coarse_to_fine_map id (rev example_rows) example_fine_names example_coarse_names
              Map.empty
         = create_coarse_to_fine_map id example_rows example_fine_names example_coarse_names
              Map.empty"
proof -
  obtain T where run: "fst (create_coarse_to_fine_map id example_rows example_fine_names
      example_coarse_names Map.empty) = Inr T"
    using example_rows_valid by (simp add: create_closed)
  note th = taxonomy_sorted_and_order_independent
    [of id example_rows example_fine_names example_coarse_names Map.empty T "rev example_rows"]
  from th run have ch: "case T c of
        None \<Rightarrow> observed example_fine_names example_coarse_names example_rows c = {}
      | Some names \<Rightarrow> sorted names \<and> distinct names
          \<and> set names = observed example_fine_names example_coarse_names example_rows c
          \<and> names \<noteq> []" for c
    by blast
  have fruit: "T ''fruit'' = Some [''apple'', ''pear'']"
  proof (cases "T ''fruit''")
    case None
    with ch [of "''fruit''"] show ?thesis by (simp add: example_observed)
  next
    case (Some names)
    with ch [of "''fruit''"] have "sorted names" "distinct names"
      "set names = set [''apple'', ''pear'']"
      by (auto simp: example_observed)
    then have "names = [''apple'', ''pear'']"
      by (intro sorted_distinct_set_unique) simp_all
    with Some show ?thesis by simp
  qed
  have other: "T ''other'' = Some [''plum'']"
  proof (cases "T ''other''")
    case None
    with ch [of "''other''"] show ?thesis by (simp add: example_observed)
  next
    case (Some names)
    with ch [of "''other''"] have "sorted names" "distinct names" "set names = set [''plum'']"
      by (auto simp: example_observed)
    then have "names = [''plum'']"
      by (intro sorted_distinct_set_unique) simp_all
    with Some show ?thesis by simp
  qed
  have trees: "T ''trees'' = None"
    using ch [of "''trees''"] by (cases "T ''trees''") (simp_all add: example_observed)
  from th have "create_coarse_to_fine_map id (rev example_rows) example_fine_names
      example_coarse_names Map.empty
    = create_coarse_to_fine_map id example_rows example_fine_names example_coarse_names Map.empty"
    by simp
  with run fruit other trees show ?thesis by blast
qed

lemma load_data_pyramid_fallthrough:
  assumes "return_subset \<notin> {''all'', ''joint_only'', ''gate_only'', ''test_only''}"
  shows "load_data_pyramid disk ''cifar100_joint'' return_subset
           = map_sum id (\<lambda>p. PyNone) (run_load_cifar_pyramid disk)"
    and "load_data_pyramid disk ''cifar100_joint_prefeaturized'' return_subset
           = map_sum id (\<lambda>p. PyNone) (load_cifar100_prefeaturized disk)"
    and "pipeline_load_data_pyramid disk ''cifar100_joint'' return_subset
           = map_sum id (\<lambda>p. PyNone) (run_load_cifar_pyramid disk)"
  using assms
  by (cases "run_load_cifar_pyramid disk"; cases "load_cifar100_prefeaturized disk";
      simp add: load_data_pyramid_def pipeline_load_data_pyramid_def)+

text \<open>
  Claim C10.  For both dataset names that \<^verbatim>\<open>data_utils.load_data_pyramid\<close> knows, and for
  the one that \<^verbatim>\<open>pipeline.load_data_pyramid\<close> knows, a \<open>return_subset\<close> outside the four
  values makes the call return \<^verbatim>\<open>None\<close> once the data has been loaded: no error is raised
  for the unknown value and no part of the data is returned.
\<close>

theorem unknown_subset_returns_None:
  assumes "return_subset \<notin> {''all'', ''joint_only'', ''gate_only'', ''test_only''}"
  shows "(run_load_cifar_pyramid disk = Inr p \<longrightarrow>
            load_data_pyramid disk ''cifar100_joint'' return_subset = Inr PyNone
          \<and> pipeline_load_data_pyramid disk ''cifar100_joint'' return_subset = Inr PyNone)
       \<and> (load_cifar100_prefeaturized disk = Inr p' \<longrightarrow>
            load_data_pyramid disk ''cifar100_joint_prefeaturized'' return_subset = Inr PyNone)"
  using assms
  by (auto simp: load_data_pyramid_def pipeline_load_data_pyramid_def)

theorem unknown_subset_returns_None_witness:
  "load_data_pyramid example_disk ''cifar100_joint'' ''validation_only'' = Inr PyNone
   \<and> pipeline_load_data_pyramid example_disk ''cifar100_joint'' ''validation_only'' = Inr PyNone
   \<and> load_data_pyramid example_disk ''cifar100_joint_prefeaturized'' ''validation_only'' = Inr PyNone"
proof -
  have s: "''validation_only'' \<notin> {''all'', ''joint_only'', ''gate_only'', ''test_only''}"
    by simp
  have run: "run_load_cifar_pyramid example_disk =
     Inr \<lparr>X_train_joint = [10, 11], y_train_joint = [(1, 0), (5, 1)],
          X_train_gate = [10, 11], y_train_gate = [(1, 0), (5, 1)],
          fine_or_coarse_train_gate = [0, 0],
          X_test_all = [12], y_test_all = [(4, 0)], fine_or_coarse_test = [1]\<rparr>"
    by (simp add: run_load_cifar_pyramid_def example_disk_def load_cifar_pyramid_def
        scenario_label_sets np_row_def py_index_def scenario_names_def train_step_def)
  have pre: "load_cifar100_prefeaturized example_disk =
     Inr \<lparr>X_train_joint = [20], y_train_joint = [(0, 0)],
             X_train_gate = [20, 21], y_train_gate = [(0, 0), (2, 0)],
             fine_or_coarse_train_gate = [0, 1],
             X_test_all = [22], y_test_all = [(4, 0)], fine_or_coarse_test = [1]\<rparr>"
    by (simp add: load_cifar100_prefeaturized_def example_disk_def)
  from unknown_subset_returns_None [OF s, of example_disk _ _] run pre
  show ?thesis by blast
qed

end
